theory Spec2Isabelle
  imports Complex_Main
begin

section \<open>Python values, strings and exceptions\<close>

text \<open>
  The adapter of \<^verbatim>\<open>gemini_app.py\<close> (class \<^verbatim>\<open>GeminiVertexAI\<close>) and the image-analysis
  handler of \<^verbatim>\<open>streamlit_app.py\<close> are embedded as functions that pass the adapter object
  and the outside world (file system, standard output, remote round trips) explicitly.
  An exception is a value: a computation returns \<open>Inl e\<close> where the Python raises \<open>e\<close>.
\<close>

text \<open>
  Keyword-argument values. The generation parameters are handed to the service unchanged and
  no arithmetic is done on them, so a float is represented by the number its literal denotes.
\<close>

datatype pyval = PyFloat real | PyInt int | PyStr string | PyNone

type_synonym kwargs = "string \<rightharpoonup> pyval"

type_synonym bytes = "nat list"

definition quote :: char where
  "quote = CHR 0x27"

definition dquote :: char where
  "dquote = CHR 0x22"

definition backslash :: char where
  "backslash = CHR 0x5C"

text \<open>
  A character of a string stands for a code point below 256. \<^verbatim>\<open>str.isprintable\<close> on these:
  the ASCII range from the space to the tilde, and the Latin-1 range from 0xA1 on without the
  soft hyphen 0xAD.
\<close>

definition printable :: "char \<Rightarrow> bool" where
  "printable c =
     (let n = (of_char c :: nat) in (32 \<le> n \<and> n < 127) \<or> (161 \<le> n \<and> n \<noteq> 173))"

definition hex_digit :: "nat \<Rightarrow> char" where
  "hex_digit n = ''0123456789abcdef'' ! (n mod 16)"

text \<open>The escape \<^verbatim>\<open>\xNN\<close> of a character.\<close>

definition hex_escape :: "char \<Rightarrow> string" where
  "hex_escape c =
     [backslash, CHR ''x'', hex_digit ((of_char c :: nat) div 16), hex_digit (of_char c)]"

text \<open>
  \<^verbatim>\<open>repr\<close> of a \<^verbatim>\<open>str\<close>: single quotes unless the text holds a single quote and no double
  quote; the delimiter, the backslash, tab, newline and carriage return are escaped, and
  every other character that is not printable is written \<^verbatim>\<open>\xNN\<close>.
\<close>

fun repr_escape :: "char \<Rightarrow> string \<Rightarrow> string" where
  "repr_escape q [] = []"
| "repr_escape q (c # cs) =
     (if c = q \<or> c = backslash then backslash # c # repr_escape q cs
      else if c = CHR 0x09 then backslash # CHR ''t'' # repr_escape q cs
      else if c = CHR 0x0A then backslash # CHR ''n'' # repr_escape q cs
      else if c = CHR 0x0D then backslash # CHR ''r'' # repr_escape q cs
      else if \<not> printable c then hex_escape c @ repr_escape q cs
      else c # repr_escape q cs)"

definition repr_str :: "string \<Rightarrow> string" where
  "repr_str s =
     (let q = (if quote \<in> set s \<and> dquote \<notin> set s then dquote else quote)
      in q # repr_escape q s @ [q])"

text \<open>\<^verbatim>\<open>', '.join(xs)\<close>\<close>

fun join_comma :: "string list \<Rightarrow> string" where
  "join_comma [] = []"
| "join_comma [x] = x"
| "join_comma (x # y # ys) = x @ '', '' @ join_comma (y # ys)"

text \<open>\<^verbatim>\<open>repr\<close> of a list of \<^verbatim>\<open>str\<close>, as \<^verbatim>\<open>f"{list(d.keys())}"\<close> prints it.\<close>

definition repr_list :: "string list \<Rightarrow> string" where
  "repr_list xs = ''['' @ join_comma (map repr_str xs) @ '']''"

text \<open>
  The instances of \<^verbatim>\<open>Exception\<close> that the modelled code meets: the \<^verbatim>\<open>ValueError\<close> of
  \<^verbatim>\<open>set_model\<close>, the \<^verbatim>\<open>KeyError\<close> of a missing dictionary key, the \<^verbatim>\<open>IndexError\<close> of a
  list index out of range, the \<^verbatim>\<open>OSError\<close>s of \<^verbatim>\<open>open\<close> and \<^verbatim>\<open>os.remove\<close> (each carries
  the path; \<open>NameTooLong\<close> is the plain \<^verbatim>\<open>OSError\<close> with errno 36), an \<^verbatim>\<open>AttributeError\<close>,
  and whatever the SDK or Streamlit raises (class name and message).
\<close>

datatype exn =
    ValueError string
  | KeyError string
  | IndexError string
  | AttributeError string
  | FileNotFoundError string
  | IsADirectoryError string
  | NotADirectoryError string
  | PermissionError string
  | NameTooLong string
  | SdkError string string

text \<open>\<^verbatim>\<open>str(e)\<close>\<close>

fun str_exn :: "exn \<Rightarrow> string" where
  "str_exn (ValueError msg) = msg"
| "str_exn (KeyError k) = repr_str k"
| "str_exn (IndexError msg) = msg"
| "str_exn (AttributeError msg) = msg"
| "str_exn (FileNotFoundError path) = ''[Errno 2] No such file or directory: '' @ repr_str path"
| "str_exn (IsADirectoryError path) = ''[Errno 21] Is a directory: '' @ repr_str path"
| "str_exn (NotADirectoryError path) = ''[Errno 20] Not a directory: '' @ repr_str path"
| "str_exn (PermissionError path) = ''[Errno 13] Permission denied: '' @ repr_str path"
| "str_exn (NameTooLong path) = ''[Errno 36] File name too long: '' @ repr_str path"
| "str_exn (SdkError cls msg) = msg"

text \<open>\<^verbatim>\<open>isinstance(e, ValueError)\<close>: the invalid-argument condition.\<close>

fun is_ValueError :: "exn \<Rightarrow> bool" where
  "is_ValueError (ValueError msg) = True"
| "is_ValueError e = False"

subsection \<open>\<^verbatim>\<open>str.lower\<close>, \<^verbatim>\<open>str.rfind\<close> and \<^verbatim>\<open>os.path.splitext\<close>\<close>

text \<open>
  \<^verbatim>\<open>str.lower\<close> on the ASCII letters. The keys of the MIME table are ASCII, and no other
  character lower-cases to a letter of a key, so the lookup is not affected by the rest.
\<close>

definition lower_char :: "char \<Rightarrow> char" where
  "lower_char c =
     (case map_of (zip ''ABCDEFGHIJKLMNOPQRSTUVWXYZ'' ''abcdefghijklmnopqrstuvwxyz'') c of
        Some l \<Rightarrow> l
      | None \<Rightarrow> c)"

definition lower :: "string \<Rightarrow> string" where
  "lower s = map lower_char s"

text \<open>\<^verbatim>\<open>p.rfind(c)\<close>: the highest index of \<open>c\<close>, or \<open>-1\<close>.\<close>

fun rfind_from :: "string \<Rightarrow> char \<Rightarrow> int \<Rightarrow> int \<Rightarrow> int" where
  "rfind_from [] c i found = found"
| "rfind_from (x # xs) c i found = rfind_from xs c (i + 1) (if x = c then i else found)"

definition rfind :: "string \<Rightarrow> char \<Rightarrow> int" where
  "rfind p c = rfind_from p c 0 (- 1)"

text \<open>
  The loop of \<^verbatim>\<open>genericpath._splitext\<close> that skips the leading dots of the last path
  component: it returns the split at \<open>dotIndex\<close> as soon as it meets a character that is not
  a dot, and falls through (\<open>None\<close>) when there is none before \<open>dotIndex\<close>.
\<close>

function skip_leading_dots :: "string \<Rightarrow> nat \<Rightarrow> nat \<Rightarrow> (string \<times> string) option" where
  "skip_leading_dots p filenameIndex dotIndex =
     (if filenameIndex < dotIndex then
        (if take 1 (drop filenameIndex p) \<noteq> ''.'' then Some (take dotIndex p, drop dotIndex p)
         else skip_leading_dots p (filenameIndex + 1) dotIndex)
      else None)"
  by pat_completeness auto
termination
  by (relation "measure (\<lambda>(p, filenameIndex, dotIndex). dotIndex - filenameIndex)") auto

declare skip_leading_dots.simps [simp del]

text \<open>\<^verbatim>\<open>os.path.splitext\<close> of \<^verbatim>\<open>posixpath\<close> (separator \<^verbatim>\<open>/\<close>, no alternative separator).\<close>

definition splitext :: "string \<Rightarrow> string \<times> string" where
  "splitext p =
     (let sepIndex = rfind p (CHR ''/'');
          dotIndex = rfind p (CHR ''.'')
      in if dotIndex > sepIndex then
           (case skip_leading_dots p (nat (sepIndex + 1)) (nat dotIndex) of
              Some r \<Rightarrow> r
            | None \<Rightarrow> (p, []))
         else (p, []))"

text \<open>\<^verbatim>\<open>os.path.basename\<close> and \<^verbatim>\<open>os.path.dirname\<close> of \<^verbatim>\<open>posixpath\<close>.\<close>

definition basename :: "string \<Rightarrow> string" where
  "basename p = drop (nat (rfind p (CHR ''/'') + 1)) p"

definition dirname :: "string \<Rightarrow> string" where
  "dirname p =
     (let head = take (nat (rfind p (CHR ''/'') + 1)) p
      in if head \<noteq> [] \<and> \<not> list_all (\<lambda>c. c = CHR ''/'') head
         then rev (dropWhile (\<lambda>c. c = CHR ''/'') (rev head))
         else head)"

section \<open>The SDK's objects and the remote service\<close>

text \<open>
  \<^verbatim>\<open>Part.from_text\<close>, \<^verbatim>\<open>Part.from_data\<close>, \<^verbatim>\<open>Content\<close>, \<^verbatim>\<open>GenerativeModel\<close> and
  \<^verbatim>\<open>start_chat\<close> build client-side objects; the round trips to the service are
  \<^verbatim>\<open>generate_content\<close> and \<^verbatim>\<open>send_message\<close>.
\<close>

datatype part = Part_from_text string | Part_from_data bytes string

record content =
  role :: string
  parts :: "part list"

datatype generative_model = GenerativeModel string

record chat_session =
  chat_model :: generative_model
  history :: "content list"

text \<open>An element of the list given to \<^verbatim>\<open>generate_content\<close>: a plain string or a part.\<close>

datatype item = StrItem string | PartItem part

text \<open>The first argument of \<^verbatim>\<open>generate_content\<close>: the prompt itself, or a list of items.\<close>

datatype contents = Prompt string | Items "item list"

text \<open>The generation configuration is a dictionary; its keys are kept in insertion order.\<close>

type_synonym generation_config = "(string \<times> pyval) list"

datatype request =
    GenerateContent generative_model contents generation_config
  | SendMessage chat_session string

text \<open>A response object; reading its \<^verbatim>\<open>text\<close> property returns the text or raises.\<close>

datatype response = Response "exn + string"

fun response_text :: "response \<Rightarrow> exn + string" where
  "response_text (Response r) = r"

text \<open>
  The remote service is a parameter: given the round trips made so far and the new request,
  it returns a response or raises.
\<close>

type_synonym service = "request list \<Rightarrow> request \<Rightarrow> exn + response"

fun request_model :: "request \<Rightarrow> generative_model" where
  "request_model (GenerateContent m c g) = m"
| "request_model (SendMessage chat msg) = chat_model chat"

section \<open>The world: files, standard output, round trips, the dashboard page\<close>

text \<open>
  A path of the file system names a regular file the process may open, a regular file it
  may not open (\<open>Protected\<close>: \<^verbatim>\<open>open\<close> raises \<^verbatim>\<open>PermissionError\<close>), or a directory.
\<close>

datatype node = File bytes | Protected bytes | Dir

record world =
  files :: "string \<rightharpoonup> node"
  stdout :: "string list"
  requests :: "request list"
  page :: "string list"

text \<open>\<^verbatim>\<open>print(line)\<close>\<close>

definition print :: "string \<Rightarrow> world \<Rightarrow> world" where
  "print line w = w\<lparr>stdout := stdout w @ [line]\<rparr>"

text \<open>\<^verbatim>\<open>os.path.exists(path)\<close>: true of a file and of a directory.\<close>

definition os_path_exists :: "world \<Rightarrow> string \<Rightarrow> bool" where
  "os_path_exists w path = (files w path \<noteq> None)"

text \<open>\<^verbatim>\<open>with open(path, 'rb') as f: data = f.read()\<close>\<close>

definition read_file :: "world \<Rightarrow> string \<Rightarrow> exn + bytes" where
  "read_file w path =
     (case files w path of
        None \<Rightarrow> Inl (FileNotFoundError path)
      | Some Dir \<Rightarrow> Inl (IsADirectoryError path)
      | Some (Protected data) \<Rightarrow> Inl (PermissionError path)
      | Some (File data) \<Rightarrow> Inr data)"

text \<open>The longest file name the file system takes (\<^verbatim>\<open>NAME_MAX\<close>).\<close>

definition name_max :: nat where
  "name_max = 255"

text \<open>
  The directory a new file is created in must exist: the working directory (\<^verbatim>\<open>dirname\<close> is
  empty), the root, or a directory of the file system.
\<close>

definition parent_error :: "world \<Rightarrow> string \<Rightarrow> exn option" where
  "parent_error w path =
     (let d = dirname path
      in if d = [] \<or> list_all (\<lambda>c. c = CHR ''/'') d then None
         else (case files w d of
                 Some Dir \<Rightarrow> None
               | None \<Rightarrow> Some (FileNotFoundError path)
               | Some n \<Rightarrow> Some (NotADirectoryError path)))"

text \<open>
  \<^verbatim>\<open>with open(path, "wb") as f: f.write(data)\<close>: creates or overwrites a file. \<^verbatim>\<open>open\<close>
  raises on a name that is too long, on a missing parent directory, on a directory and on
  a file the process may not open.
\<close>

definition write_file :: "string \<Rightarrow> bytes \<Rightarrow> world \<Rightarrow> (exn + unit) \<times> world" where
  "write_file path data w =
     (if name_max < length (basename path) then (Inl (NameTooLong path), w)
      else (case parent_error w path of
              Some e \<Rightarrow> (Inl e, w)
            | None \<Rightarrow>
                (case files w path of
                   Some Dir \<Rightarrow> (Inl (IsADirectoryError path), w)
                 | Some (Protected old) \<Rightarrow> (Inl (PermissionError path), w)
                 | _ \<Rightarrow> (Inr (), w\<lparr>files := (files w)(path \<mapsto> File data)\<rparr>))))"

text \<open>
  \<^verbatim>\<open>os.remove(path)\<close>: unlinking a regular file does not depend on the permissions of the
  file itself.
\<close>

definition os_remove :: "string \<Rightarrow> world \<Rightarrow> (exn + unit) \<times> world" where
  "os_remove path w =
     (case files w path of
        None \<Rightarrow> (Inl (FileNotFoundError path), w)
      | Some Dir \<Rightarrow> (Inl (IsADirectoryError path), w)
      | Some n \<Rightarrow> (Inr (), w\<lparr>files := (files w)(path := None)\<rparr>))"

text \<open>One round trip: the request is recorded and the service answers.\<close>

definition round_trip :: "service \<Rightarrow> request \<Rightarrow> world \<Rightarrow> (exn + response) \<times> world" where
  "round_trip svc req w = (svc (requests w) req, w\<lparr>requests := requests w @ [req]\<rparr>)"

section \<open>The adapter: class \<^verbatim>\<open>GeminiVertexAI\<close>\<close>

record GeminiVertexAI =
  project_id :: string
  location :: string
  models :: "(string \<times> string) list"
  model :: generative_model

text \<open>
  \<^verbatim>\<open>__init__(self, project_id, location="us-central1")\<close>; \<open>None\<close> stands for the omitted
  \<open>location\<close>. The subscript \<^verbatim>\<open>self.models["gemini-2.0-flash-exp"]\<close> raises \<^verbatim>\<open>KeyError\<close>
  on a missing key, so the constructor returns a sum.
\<close>

definition GeminiVertexAI_init :: "string \<Rightarrow> string option \<Rightarrow> exn + GeminiVertexAI" where
  "GeminiVertexAI_init project location_arg =
     (let models_tab = [(''gemini-2.0-flash-exp'', ''gemini-2.0-flash-exp''),
                        (''gemini-2.0-flash-thinking-exp'', ''gemini-2.0-flash-thinking-exp'')]
      in case map_of models_tab ''gemini-2.0-flash-exp'' of
           None \<Rightarrow> Inl (KeyError ''gemini-2.0-flash-exp'')
         | Some default_name \<Rightarrow>
             Inr \<lparr>project_id = project,
                  location = (case location_arg of None \<Rightarrow> ''us-central1'' | Some l \<Rightarrow> l),
                  models = models_tab,
                  model = GenerativeModel default_name\<rparr>)"

text \<open>
  \<^verbatim>\<open>set_model\<close>: the outcome is \<open>Inl\<close> of the \<^verbatim>\<open>ValueError\<close> raised or \<open>Inr ()\<close>, with the
  adapter and the world as the call leaves them.
\<close>

definition set_model ::
  "GeminiVertexAI \<Rightarrow> string \<Rightarrow> world \<Rightarrow> (exn + unit) \<times> GeminiVertexAI \<times> world" where
  "set_model self model_name w =
     (case map_of (models self) model_name of
        None \<Rightarrow>
          (Inl (ValueError (''Model '' @ model_name @ '' not supported. Available models: ''
                            @ repr_list (map fst (models self)))),
           self, w)
      | Some name \<Rightarrow>
          (Inr (), self\<lparr>model := GenerativeModel name\<rparr>, print (''Model set to: '' @ model_name) w))"

text \<open>The dictionary built from \<^verbatim>\<open>kwargs.get(key, default)\<close> for the four parameters.\<close>

definition kwargs_get :: "kwargs \<Rightarrow> string \<Rightarrow> pyval \<Rightarrow> pyval" where
  "kwargs_get kw key dflt = (case kw key of Some v \<Rightarrow> v | None \<Rightarrow> dflt)"

definition make_generation_config :: "kwargs \<Rightarrow> generation_config" where
  "make_generation_config kw =
     [(''temperature'', kwargs_get kw ''temperature'' (PyFloat 0.7)),
      (''top_p'', kwargs_get kw ''top_p'' (PyFloat 0.95)),
      (''top_k'', kwargs_get kw ''top_k'' (PyInt 40)),
      (''max_output_tokens'', kwargs_get kw ''max_output_tokens'' (PyInt 2048))]"

text \<open>The body of the \<^verbatim>\<open>try\<close> of \<^verbatim>\<open>generate_text\<close>.\<close>

definition generate_text_try ::
  "service \<Rightarrow> GeminiVertexAI \<Rightarrow> string \<Rightarrow> kwargs \<Rightarrow> world \<Rightarrow> (exn + string) \<times> world" where
  "generate_text_try svc self prompt kw w =
     (let generation_config = make_generation_config kw
      in case round_trip svc (GenerateContent (model self) (Prompt prompt) generation_config) w of
           (Inl e, w') \<Rightarrow> (Inl e, w')
         | (Inr response, w') \<Rightarrow> (response_text response, w'))"

text \<open>\<^verbatim>\<open>generate_text\<close>: the returned string, the adapter and the world after the call.\<close>

definition generate_text ::
  "service \<Rightarrow> GeminiVertexAI \<Rightarrow> string \<Rightarrow> kwargs \<Rightarrow> world \<Rightarrow> string \<times> GeminiVertexAI \<times> world" where
  "generate_text svc self prompt kw w =
     (case generate_text_try svc self prompt kw w of
        (Inr text, w') \<Rightarrow> (text, self, w')
      | (Inl e, w') \<Rightarrow> (''Error generating text: '' @ str_exn e, self, w'))"

text \<open>\<^verbatim>\<open>_get_mime_type\<close>\<close>

definition mime_types :: "(string \<times> string) list" where
  "mime_types =
     [(''.jpg'', ''image/jpeg''),
      (''.jpeg'', ''image/jpeg''),
      (''.png'', ''image/png''),
      (''.gif'', ''image/gif''),
      (''.bmp'', ''image/bmp''),
      (''.webp'', ''image/webp'')]"

definition extension :: "string \<Rightarrow> string" where
  "extension file_path = lower (snd (splitext file_path))"

definition get_mime_type :: "string \<Rightarrow> string" where
  "get_mime_type file_path =
     (case map_of mime_types (extension file_path) of
        Some mime_type \<Rightarrow> mime_type
      | None \<Rightarrow> ''image/jpeg'')"

text \<open>
  The \<^verbatim>\<open>for image_path in image_paths\<close> loop of \<^verbatim>\<open>generate_with_images\<close>: an existing path is
  opened and read (which may raise), a missing one is reported on standard output.
\<close>

definition warning_line :: "string \<Rightarrow> string" where
  "warning_line image_path = ''Warning: Image file '' @ image_path @ '' not found''"

fun read_images :: "string list \<Rightarrow> item list \<Rightarrow> world \<Rightarrow> (exn + item list) \<times> world" where
  "read_images [] content_parts w = (Inr content_parts, w)"
| "read_images (image_path # rest) content_parts w =
     (if os_path_exists w image_path then
        (case read_file w image_path of
           Inl e \<Rightarrow> (Inl e, w)
         | Inr image_data \<Rightarrow>
             read_images rest
               (content_parts @ [PartItem (Part_from_data image_data (get_mime_type image_path))]) w)
      else read_images rest content_parts (print (warning_line image_path) w))"

definition generate_with_images_try ::
  "service \<Rightarrow> GeminiVertexAI \<Rightarrow> string \<Rightarrow> string list \<Rightarrow> kwargs \<Rightarrow> world
     \<Rightarrow> (exn + string) \<times> world" where
  "generate_with_images_try svc self prompt image_paths kw w =
     (case read_images image_paths [StrItem prompt] w of
        (Inl e, w1) \<Rightarrow> (Inl e, w1)
      | (Inr content_parts, w1) \<Rightarrow>
          (let generation_config = make_generation_config kw
           in case round_trip svc
                     (GenerateContent (model self) (Items content_parts) generation_config) w1 of
                (Inl e, w2) \<Rightarrow> (Inl e, w2)
              | (Inr response, w2) \<Rightarrow> (response_text response, w2)))"

definition generate_with_images ::
  "service \<Rightarrow> GeminiVertexAI \<Rightarrow> string \<Rightarrow> string list \<Rightarrow> kwargs \<Rightarrow> world
     \<Rightarrow> string \<times> GeminiVertexAI \<times> world" where
  "generate_with_images svc self prompt image_paths kw w =
     (case generate_with_images_try svc self prompt image_paths kw w of
        (Inr text, w') \<Rightarrow> (text, self, w')
      | (Inl e, w') \<Rightarrow> (''Error generating text with images: '' @ str_exn e, self, w'))"

text \<open>
  \<^verbatim>\<open>chat_conversation\<close>. A message is a \<^verbatim>\<open>Dict[str, str]\<close>; the subscripts
  \<^verbatim>\<open>message["role"]\<close> and \<^verbatim>\<open>message["content"]\<close> raise \<^verbatim>\<open>KeyError\<close> on a missing key.
\<close>

type_synonym message = "string \<rightharpoonup> string"

definition convert_message :: "message \<Rightarrow> exn + content" where
  "convert_message message =
     (case message ''role'' of
        None \<Rightarrow> Inl (KeyError ''role'')
      | Some r \<Rightarrow>
          (case message ''content'' of
             None \<Rightarrow> Inl (KeyError ''content'')
           | Some c \<Rightarrow>
               Inr \<lparr>role = (if r = ''user'' then ''user'' else ''model''),
                    parts = [Part_from_text c]\<rparr>))"

fun convert_messages :: "message list \<Rightarrow> content list \<Rightarrow> exn + content list" where
  "convert_messages [] contents = Inr contents"
| "convert_messages (message # rest) contents =
     (case convert_message message of
        Inl e \<Rightarrow> Inl e
      | Inr c \<Rightarrow> convert_messages rest (contents @ [c]))"

text \<open>\<^verbatim>\<open>xs[-1]\<close> and \<^verbatim>\<open>xs[0]\<close>\<close>

definition py_last :: "'a list \<Rightarrow> exn + 'a" where
  "py_last xs = (if xs = [] then Inl (IndexError ''list index out of range'') else Inr (last xs))"

definition py_first :: "'a list \<Rightarrow> exn + 'a" where
  "py_first xs = (case xs of [] \<Rightarrow> Inl (IndexError ''list index out of range'') | x # _ \<Rightarrow> Inr x)"

text \<open>The \<^verbatim>\<open>text\<close> property of a part.\<close>

fun part_text :: "part \<Rightarrow> exn + string" where
  "part_text (Part_from_text t) = Inr t"
| "part_text (Part_from_data d m) = Inl (AttributeError ''text'')"

text \<open>\<^verbatim>\<open>self.model.start_chat(history=...)\<close> builds the session object.\<close>

definition start_chat :: "generative_model \<Rightarrow> content list \<Rightarrow> chat_session" where
  "start_chat m h = \<lparr>chat_model = m, history = h\<rparr>"

definition chat_conversation_try ::
  "service \<Rightarrow> GeminiVertexAI \<Rightarrow> message list \<Rightarrow> kwargs \<Rightarrow> world \<Rightarrow> (exn + string) \<times> world" where
  "chat_conversation_try svc self messages kw w =
     (case convert_messages messages [] of
        Inl e \<Rightarrow> (Inl e, w)
      | Inr contents \<Rightarrow>
          (let chat = start_chat (model self) (butlast contents)
           in case py_last contents of
                Inl e \<Rightarrow> (Inl e, w)
              | Inr c \<Rightarrow>
                  (case py_first (parts c) of
                     Inl e \<Rightarrow> (Inl e, w)
                   | Inr p \<Rightarrow>
                       (case part_text p of
                          Inl e \<Rightarrow> (Inl e, w)
                        | Inr text \<Rightarrow>
                            (case round_trip svc (SendMessage chat text) w of
                               (Inl e, w') \<Rightarrow> (Inl e, w')
                             | (Inr response, w') \<Rightarrow> (response_text response, w'))))))"

definition chat_conversation ::
  "service \<Rightarrow> GeminiVertexAI \<Rightarrow> message list \<Rightarrow> kwargs \<Rightarrow> world
     \<Rightarrow> string \<times> GeminiVertexAI \<times> world" where
  "chat_conversation svc self messages kw w =
     (case chat_conversation_try svc self messages kw w of
        (Inr text, w') \<Rightarrow> (text, self, w')
      | (Inl e, w') \<Rightarrow> (''Error in chat conversation: '' @ str_exn e, self, w'))"

text \<open>
  The states an adapter can be in: the constructor makes one, and each method call leads to
  the adapter it leaves behind.
\<close>

inductive reachable :: "GeminiVertexAI \<Rightarrow> bool" where
  reach_init: "GeminiVertexAI_init project location_arg = Inr a \<Longrightarrow> reachable a"
| reach_set_model: "reachable a \<Longrightarrow> set_model a model_name w = (r, a', w') \<Longrightarrow> reachable a'"
| reach_generate_text:
    "reachable a \<Longrightarrow> generate_text svc a prompt kw w = (t, a', w') \<Longrightarrow> reachable a'"
| reach_generate_with_images:
    "reachable a \<Longrightarrow> generate_with_images svc a prompt image_paths kw w = (t, a', w')
       \<Longrightarrow> reachable a'"
| reach_chat_conversation:
    "reachable a \<Longrightarrow> chat_conversation svc a messages kw w = (t, a', w') \<Longrightarrow> reachable a'"

text \<open>The identifier a model handle was built from.\<close>

fun model_name_of :: "generative_model \<Rightarrow> string" where
  "model_name_of (GenerativeModel n) = n"

definition supported_models :: "string list" where
  "supported_models = [''gemini-2.0-flash-exp'', ''gemini-2.0-flash-thinking-exp'']"

text \<open>The round trips a call added to the world.\<close>

definition sent :: "world \<Rightarrow> world \<Rightarrow> request list" where
  "sent w w' = drop (length (requests w)) (requests w')"

section \<open>The dashboard: the \<^verbatim>\<open>Analyze Images\<close> handler of \<^verbatim>\<open>streamlit_app.py\<close>\<close>

record uploaded_file =
  upload_name :: string
  upload_buffer :: bytes

text \<open>
  A Streamlit display call (\<^verbatim>\<open>st.success\<close>, \<^verbatim>\<open>st.markdown\<close>, \<^verbatim>\<open>st.write\<close>,
  \<^verbatim>\<open>st.error\<close>) puts an element on the page or raises; which, is a parameter. The elements
  are written without the emoji the source puts in front of them.
\<close>

type_synonym streamlit = "string \<Rightarrow> exn option"

definition st_show :: "streamlit \<Rightarrow> string \<Rightarrow> world \<Rightarrow> (exn + unit) \<times> world" where
  "st_show st element w =
     (case st element of
        Some e \<Rightarrow> (Inl e, w)
      | None \<Rightarrow> (Inr (), w\<lparr>page := page w @ [element]\<rparr>))"

text \<open>\<^verbatim>\<open>temp_path = f"temp_{uploaded_file.name}"\<close>\<close>

definition temp_path_of :: "uploaded_file \<Rightarrow> string" where
  "temp_path_of uploaded = ''temp_'' @ upload_name uploaded"

text \<open>The staging loop, which runs before the \<^verbatim>\<open>try\<close>.\<close>

fun stage_uploads ::
  "uploaded_file list \<Rightarrow> string list \<Rightarrow> world \<Rightarrow> (exn + string list) \<times> world" where
  "stage_uploads [] temp_paths w = (Inr temp_paths, w)"
| "stage_uploads (uploaded # rest) temp_paths w =
     (let temp_path = temp_path_of uploaded
      in case write_file temp_path (upload_buffer uploaded) w of
           (Inl e, w') \<Rightarrow> (Inl e, w')
         | (Inr u, w') \<Rightarrow> stage_uploads rest (temp_paths @ [temp_path]) w')"

text \<open>The body of the \<^verbatim>\<open>try\<close>.\<close>

definition analyze_try ::
  "service \<Rightarrow> streamlit \<Rightarrow> GeminiVertexAI \<Rightarrow> string \<Rightarrow> string list \<Rightarrow> kwargs \<Rightarrow> world
     \<Rightarrow> (exn + unit) \<times> world" where
  "analyze_try svc st client vision_prompt temp_paths kw w =
     (case generate_with_images svc client vision_prompt temp_paths kw w of
        (response, client', w1) \<Rightarrow>
          (case st_show st ''Analysis complete!'' w1 of
             (Inl e, w2) \<Rightarrow> (Inl e, w2)
           | (Inr u, w2) \<Rightarrow>
               (case st_show st ''### Analysis Result:'' w2 of
                  (Inl e, w3) \<Rightarrow> (Inl e, w3)
                | (Inr u, w3) \<Rightarrow> st_show st response w3)))"

text \<open>The \<^verbatim>\<open>finally\<close> block.\<close>

fun cleanup :: "string list \<Rightarrow> world \<Rightarrow> (exn + unit) \<times> world" where
  "cleanup [] w = (Inr (), w)"
| "cleanup (temp_path # rest) w =
     (if os_path_exists w temp_path then
        (case os_remove temp_path w of
           (Inl e, w') \<Rightarrow> (Inl e, w')
         | (Inr u, w') \<Rightarrow> cleanup rest w')
      else cleanup rest w)"

text \<open>
  The handler of the button: \<open>Inl e\<close> when \<open>e\<close> leaves the handler, with the world as it is
  then. The four sliders are passed as keyword arguments.
\<close>

definition slider_kwargs :: "pyval \<Rightarrow> pyval \<Rightarrow> pyval \<Rightarrow> pyval \<Rightarrow> kwargs" where
  "slider_kwargs temperature max_tokens top_p top_k =
     [''temperature'' \<mapsto> temperature, ''max_output_tokens'' \<mapsto> max_tokens,
      ''top_p'' \<mapsto> top_p, ''top_k'' \<mapsto> top_k]"

definition analyze_images ::
  "service \<Rightarrow> streamlit \<Rightarrow> GeminiVertexAI \<Rightarrow> uploaded_file list \<Rightarrow> string \<Rightarrow> kwargs \<Rightarrow> world
     \<Rightarrow> (exn + unit) \<times> world" where
  "analyze_images svc st client uploaded_files vision_prompt kw w =
     (if uploaded_files \<noteq> [] \<and> vision_prompt \<noteq> [] then
        (case stage_uploads uploaded_files [] w of
           (Inl e, w1) \<Rightarrow> (Inl e, w1)
         | (Inr temp_paths, w1) \<Rightarrow>
             (case analyze_try svc st client vision_prompt temp_paths kw w1 of
                (outcome, w2) \<Rightarrow>
                  (case cleanup temp_paths w2 of
                     (Inl e, w3) \<Rightarrow> (Inl e, w3)
                   | (Inr u, w3) \<Rightarrow> (outcome, w3))))
      else st_show st ''Please upload images and enter a prompt'' w)"

text \<open>A stub service that answers every request with the text \<open>ok\<close>, and a quiet page.\<close>

definition stub_service :: service where
  "stub_service earlier req = Inr (Response (Inr ''ok''))"

definition quiet_page :: streamlit where
  "quiet_page element = None"

definition empty_world :: world where
  "empty_world = \<lparr>files = Map.empty, stdout = [], requests = [], page = []\<rparr>"

text \<open>Concrete inputs: the adapter the constructor builds, a service that is down, two worlds.\<close>

definition demo_adapter :: GeminiVertexAI where
  "demo_adapter =
     \<lparr>project_id = ''demo-project'',
      location = ''us-central1'',
      models = [(''gemini-2.0-flash-exp'', ''gemini-2.0-flash-exp''),
                (''gemini-2.0-flash-thinking-exp'', ''gemini-2.0-flash-thinking-exp'')],
      model = GenerativeModel ''gemini-2.0-flash-exp''\<rparr>"

definition failing_service :: service where
  "failing_service earlier req = Inl (SdkError ''ServiceUnavailable'' ''503 Service Unavailable'')"

text \<open>A working directory with an image \<^verbatim>\<open>cat.png\<close> and a directory \<^verbatim>\<open>photos\<close>.\<close>

definition photos_world :: world where
  "photos_world =
     \<lparr>files = [''cat.png'' \<mapsto> File [137, 80, 78, 71], ''photos'' \<mapsto> Dir],
      stdout = [], requests = [], page = []\<rparr>"

text \<open>A working directory that holds a directory named \<^verbatim>\<open>temp_b.png\<close>.\<close>

definition blocked_world :: world where
  "blocked_world =
     \<lparr>files = [''temp_b.png'' \<mapsto> Dir], stdout = [], requests = [], page = []\<rparr>"

definition two_uploads :: "uploaded_file list" where
  "two_uploads =
     [\<lparr>upload_name = ''a.png'', upload_buffer = [1, 2, 3]\<rparr>,
      \<lparr>upload_name = ''b.png'', upload_buffer = [4, 5, 6]\<rparr>]"

text \<open>
  The turn a well-formed message is converted to, in the words of the specification: role
  \<open>user\<close> maps to \<open>user\<close>, any other role to \<open>model\<close>; the text is the message's content.
\<close>

definition content_of :: "message \<Rightarrow> string" where
  "content_of m = (case m ''content'' of Some c \<Rightarrow> c | None \<Rightarrow> [])"

definition turn_of :: "message \<Rightarrow> content" where
  "turn_of m =
     \<lparr>role = (if m ''role'' = Some ''user'' then ''user'' else ''model''),
      parts = [Part_from_text (content_of m)]\<rparr>"

text \<open>A message that has both keys, as the docstring of \<^verbatim>\<open>chat_conversation\<close> asks.\<close>

definition well_formed :: "message \<Rightarrow> bool" where
  "well_formed m \<longleftrightarrow> m ''role'' \<noteq> None \<and> m ''content'' \<noteq> None"

definition example_history :: "message list" where
  "example_history =
     [[''role'' \<mapsto> ''user'', ''content'' \<mapsto> ''Hello''],
      [''role'' \<mapsto> ''assistant'', ''content'' \<mapsto> ''Hi, how can I help?''],
      [''role'' \<mapsto> ''user'', ''content'' \<mapsto> ''What is supervised learning?'']]"

text \<open>
  The parts of the references that are read successfully, in the order of the list, and the
  references that do not exist.
\<close>

fun image_parts :: "world \<Rightarrow> string list \<Rightarrow> item list" where
  "image_parts w [] = []"
| "image_parts w (image_path # rest) =
     (case read_file w image_path of
        Inr image_data \<Rightarrow>
          PartItem (Part_from_data image_data (get_mime_type image_path)) # image_parts w rest
      | Inl e \<Rightarrow> image_parts w rest)"

definition missing_paths :: "world \<Rightarrow> string list \<Rightarrow> string list" where
  "missing_paths w image_paths = filter (\<lambda>p. \<not> os_path_exists w p) image_paths"

text \<open>A reference that can be read if it exists: reading it succeeds, or it is missing.\<close>

definition readable :: "world \<Rightarrow> string \<Rightarrow> bool" where
  "readable w p = (case read_file w p of Inr image_data \<Rightarrow> True | Inl e \<Rightarrow> \<not> os_path_exists w p)"

text \<open>A path that is not a directory, so that \<^verbatim>\<open>os.remove\<close> takes it if it exists.\<close>

definition not_directory :: "world \<Rightarrow> string \<Rightarrow> bool" where
  "not_directory w p \<longleftrightarrow> files w p \<noteq> Some Dir"

text \<open>A working directory with two images; \<^verbatim>\<open>missing.gif\<close> is not there.\<close>

definition images_world :: world where
  "images_world =
     \<lparr>files = [''cat.png'' \<mapsto> File [137, 80, 78, 71], ''dog.JPEG'' \<mapsto> File [255, 216]],
      stdout = [], requests = [], page = []\<rparr>"


text \<open>Two uploads of which the second has a name of 252 characters.\<close>

definition long_name_uploads :: "uploaded_file list" where
  "long_name_uploads =
     [\<lparr>upload_name = ''a.png'', upload_buffer = [1, 2, 3]\<rparr>,
      \<lparr>upload_name = replicate 248 (CHR ''b'') @ ''.png'', upload_buffer = [4, 5, 6]\<rparr>]"

section \<open>Properties\<close>

subsection \<open>Round trips\<close>

lemma sent_append: "sent w (w'\<lparr>requests := requests w @ rs\<rparr>) = rs"
  by (simp add: sent_def)

lemma sent_self: "sent w w = []"
  by (simp add: sent_def)

lemma generate_text_unfold:
  "generate_text svc self prompt kw w =
     (case svc (requests w) (GenerateContent (model self) (Prompt prompt) (make_generation_config kw)) of
        Inl e \<Rightarrow> ''Error generating text: '' @ str_exn e
      | Inr response \<Rightarrow>
          (case response_text response of
             Inl e \<Rightarrow> ''Error generating text: '' @ str_exn e
           | Inr text \<Rightarrow> text),
      self,
      w\<lparr>requests := requests w @
           [GenerateContent (model self) (Prompt prompt) (make_generation_config kw)]\<rparr>)"
  by (simp add: generate_text_def generate_text_try_def round_trip_def Let_def
           split: sum.splits)

lemma read_images_frame:
  "read_images image_paths content_parts w = (r, w') \<Longrightarrow>
     requests w' = requests w \<and> files w' = files w \<and> page w' = page w"
proof (induction image_paths arbitrary: content_parts w)
  case Nil
  then show ?case by simp
next
  case (Cons image_path rest)
  show ?case
  proof (cases "os_path_exists w image_path")
    case True
    then show ?thesis
      using Cons by (auto split: sum.splits)
  next
    case False
    then have "read_images rest content_parts (print (warning_line image_path) w) = (r, w')"
      using Cons.prems by simp
    from Cons.IH [OF this] show ?thesis
      by (simp add: print_def)
  qed
qed

lemma generate_with_images_sent:
  "sent w (snd (snd (generate_with_images svc self prompt image_paths kw w))) = []
   \<or> (\<exists>content_parts.
        sent w (snd (snd (generate_with_images svc self prompt image_paths kw w))) =
          [GenerateContent (model self) (Items content_parts) (make_generation_config kw)])"
proof (cases "read_images image_paths [StrItem prompt] w")
  case (Pair r w1)
  then have fr: "requests w1 = requests w"
    using read_images_frame by blast
  show ?thesis
  proof (cases r)
    case (Inl e)
    then show ?thesis
      using Pair fr by (simp add: generate_with_images_def generate_with_images_try_def sent_def)
  next
    case (Inr content_parts)
    then show ?thesis
      using Pair fr
      by (auto simp: generate_with_images_def generate_with_images_try_def round_trip_def
            sent_def Let_def split: sum.splits)
  qed
qed

lemma read_file_stdout [simp]: "read_file (w\<lparr>stdout := out\<rparr>) p = read_file w p"
  by (simp add: read_file_def)

lemma os_path_exists_stdout [simp]: "os_path_exists (w\<lparr>stdout := out\<rparr>) p = os_path_exists w p"
  by (simp add: os_path_exists_def)

lemma image_parts_stdout [simp]: "image_parts (w\<lparr>stdout := out\<rparr>) ps = image_parts w ps"
  by (induction ps) (simp_all split: sum.splits)

lemma missing_paths_stdout [simp]: "missing_paths (w\<lparr>stdout := out\<rparr>) ps = missing_paths w ps"
  by (simp add: missing_paths_def)

lemma readable_stdout [simp]: "readable (w\<lparr>stdout := out\<rparr>) = readable w"
  by (simp add: readable_def fun_eq_iff split: sum.splits)

lemma read_file_missing: "\<not> os_path_exists w p \<Longrightarrow> read_file w p = Inl (FileNotFoundError p)"
  by (simp add: os_path_exists_def read_file_def)

lemma readable_exists:
  "readable w p \<Longrightarrow> os_path_exists w p \<Longrightarrow> \<exists>image_data. read_file w p = Inr image_data"
  by (cases "read_file w p") (simp_all add: readable_def)

lemma unreadable_exists:
  "\<not> readable w p \<Longrightarrow> os_path_exists w p \<and> (\<exists>e. read_file w p = Inl e)"
  by (cases "read_file w p") (simp_all add: readable_def)

lemma read_images_readable:
  "list_all (readable w) image_paths \<Longrightarrow>
     read_images image_paths content_parts w =
       (Inr (content_parts @ image_parts w image_paths),
        w\<lparr>stdout := stdout w @ map warning_line (missing_paths w image_paths)\<rparr>)"
proof (induction image_paths arbitrary: content_parts w)
  case Nil
  then show ?case by (simp add: missing_paths_def)
next
  case (Cons image_path rest)
  then have rd: "readable w image_path" and rest: "list_all (readable w) rest"
    by simp_all
  show ?case
  proof (cases "os_path_exists w image_path")
    case True
    from readable_exists [OF rd True] obtain image_data where
      f: "read_file w image_path = Inr image_data"
      by blast
    show ?thesis
      using True f Cons.IH [OF rest] by (simp add: missing_paths_def)
  next
    case False
    have rest': "list_all (readable (print (warning_line image_path) w)) rest"
      using rest by (simp add: print_def)
    show ?thesis
      using False read_file_missing [OF False] Cons.IH [OF rest', of content_parts]
      by (simp add: missing_paths_def print_def)
  qed
qed

lemma read_images_unreadable:
  "\<not> list_all (readable w) image_paths \<Longrightarrow>
     \<exists>p e w'. p \<in> set image_paths \<and> os_path_exists w p \<and> read_file w p = Inl e
              \<and> read_images image_paths content_parts w = (Inl e, w')
              \<and> requests w' = requests w"
proof (induction image_paths arbitrary: content_parts w)
  case Nil
  then show ?case by simp
next
  case (Cons image_path rest)
  show ?case
  proof (cases "readable w image_path")
    case False
    from unreadable_exists [OF False] obtain e where
      "os_path_exists w image_path" "read_file w image_path = Inl e"
      by blast
    then show ?thesis
      by auto
  next
    case True
    then have nr: "\<not> list_all (readable w) rest"
      using Cons.prems by simp
    show ?thesis
    proof (cases "os_path_exists w image_path")
      case ex: True
      from readable_exists [OF True ex] obtain image_data where
        f: "read_file w image_path = Inr image_data"
        by blast
      from Cons.IH [OF nr,
          of "content_parts @ [PartItem (Part_from_data image_data (get_mime_type image_path))]"]
      obtain p e w' where "p \<in> set rest" "os_path_exists w p" "read_file w p = Inl e"
        "read_images rest
           (content_parts @ [PartItem (Part_from_data image_data (get_mime_type image_path))]) w =
         (Inl e, w')" "requests w' = requests w"
        by blast
      then show ?thesis
        using ex f by auto
    next
      case False
      have "\<not> list_all (readable (print (warning_line image_path) w)) rest"
        using nr by (simp add: print_def)
      from Cons.IH [OF this, of content_parts]
      obtain p e w' where "p \<in> set rest" "os_path_exists w p" "read_file w p = Inl e"
        "read_images rest content_parts (print (warning_line image_path) w) = (Inl e, w')"
        "requests w' = requests w"
        by (auto simp: print_def)
      then show ?thesis
        using False by auto
    qed
  qed
qed

lemma generate_with_images_readable:
  "list_all (readable w) image_paths \<Longrightarrow>
      generate_with_images svc self prompt image_paths kw w =
        (case svc (requests w)
                (GenerateContent (model self)
                   (Items (StrItem prompt # image_parts w image_paths))
                   (make_generation_config kw)) of
           Inl e \<Rightarrow> ''Error generating text with images: '' @ str_exn e
         | Inr response \<Rightarrow>
             (case response_text response of
                Inl e \<Rightarrow> ''Error generating text with images: '' @ str_exn e
              | Inr text \<Rightarrow> text),
         self,
         w\<lparr>stdout := stdout w @ map warning_line (missing_paths w image_paths),
           requests := requests w @
             [GenerateContent (model self)
                (Items (StrItem prompt # image_parts w image_paths))
                (make_generation_config kw)]\<rparr>)"
  by (simp add: generate_with_images_def generate_with_images_try_def read_images_readable
        round_trip_def Let_def split: sum.splits)

lemma generate_with_images_readable_sent:
  "list_all (readable w) image_paths \<Longrightarrow>
     sent w (snd (snd (generate_with_images svc self prompt image_paths kw w))) =
       [GenerateContent (model self) (Items (StrItem prompt # image_parts w image_paths))
          (make_generation_config kw)]"
  by (simp add: generate_with_images_readable sent_def)

lemma convert_message_well_formed:
  "well_formed m \<Longrightarrow> convert_message m = Inr (turn_of m)"
  by (auto simp: well_formed_def convert_message_def turn_of_def content_of_def)

lemma convert_messages_well_formed:
  "list_all well_formed messages \<Longrightarrow>
     convert_messages messages contents = Inr (contents @ map turn_of messages)"
  by (induction messages arbitrary: contents) (simp_all add: convert_message_well_formed)

lemma chat_conversation_well_formed:
  assumes "messages \<noteq> []" and "list_all well_formed messages"
  shows "chat_conversation svc self messages kw w =
     (case svc (requests w)
             (SendMessage \<lparr>chat_model = model self, history = map turn_of (butlast messages)\<rparr>
                (content_of (last messages))) of
        Inl e \<Rightarrow> ''Error in chat conversation: '' @ str_exn e
      | Inr response \<Rightarrow>
          (case response_text response of
             Inl e \<Rightarrow> ''Error in chat conversation: '' @ str_exn e
           | Inr text \<Rightarrow> text),
      self,
      w\<lparr>requests := requests w @
           [SendMessage \<lparr>chat_model = model self, history = map turn_of (butlast messages)\<rparr>
              (content_of (last messages))]\<rparr>)"
proof -
  have conv: "convert_messages messages [] = Inr (map turn_of messages)"
    using convert_messages_well_formed [OF assms(2), of "[]"] by simp
  have ne: "map turn_of messages \<noteq> []"
    using assms(1) by simp
  have l: "last (map turn_of messages) = turn_of (last messages)"
    using assms(1) by (simp add: last_map)
  have b: "butlast (map turn_of messages) = map turn_of (butlast messages)"
    by (simp add: map_butlast)
  show ?thesis
    using ne
    by (simp add: chat_conversation_def chat_conversation_try_def conv py_last_def py_first_def
          l b start_chat_def round_trip_def turn_of_def split: sum.splits)
qed

lemma chat_conversation_well_formed_sent:
  "messages \<noteq> [] \<Longrightarrow> list_all well_formed messages \<Longrightarrow>
     sent w (snd (snd (chat_conversation svc self messages kw w))) =
       [SendMessage \<lparr>chat_model = model self, history = map turn_of (butlast messages)\<rparr>
          (content_of (last messages))]"
  by (simp add: chat_conversation_well_formed sent_append)

lemma chat_conversation_sent:
  "sent w (snd (snd (chat_conversation svc self messages kw w))) = []
   \<or> (\<exists>h text. sent w (snd (snd (chat_conversation svc self messages kw w))) =
         [SendMessage \<lparr>chat_model = model self, history = h\<rparr> text])"
  by (auto simp: chat_conversation_def chat_conversation_try_def round_trip_def start_chat_def
        sent_def Let_def split: sum.splits prod.splits)

lemma chat_conversation_model:
  "list_all (\<lambda>r. request_model r = model self)
     (sent w (snd (snd (chat_conversation svc self messages kw w))))"
  using chat_conversation_sent [of w svc self messages kw] by auto

lemma generate_with_images_model:
  "list_all (\<lambda>r. request_model r = model self)
     (sent w (snd (snd (generate_with_images svc self prompt image_paths kw w))))"
  using generate_with_images_sent [of w svc self prompt image_paths kw] by auto

lemma get_mime_type_cat: "get_mime_type ''cat.png'' = ''image/png''"
  by code_simp

lemma get_mime_type_dog: "get_mime_type ''dog.JPEG'' = ''image/jpeg''"
  by code_simp

lemma images_world_readable:
  "list_all (readable images_world) [''cat.png'', ''missing.gif'', ''dog.JPEG'']"
  by (simp add: readable_def read_file_def os_path_exists_def images_world_def)

lemma images_world_parts:
  "image_parts images_world [''cat.png'', ''missing.gif'', ''dog.JPEG''] =
     [PartItem (Part_from_data [137, 80, 78, 71] ''image/png''),
      PartItem (Part_from_data [255, 216] ''image/jpeg'')]"
  by (simp add: read_file_def images_world_def get_mime_type_cat get_mime_type_dog)



lemma example_history_facts:
  "example_history \<noteq> []" "list_all well_formed example_history"
  "map turn_of (butlast example_history) =
     [\<lparr>role = ''user'', parts = [Part_from_text ''Hello'']\<rparr>,
      \<lparr>role = ''model'', parts = [Part_from_text ''Hi, how can I help?'']\<rparr>]"
  "content_of (last example_history) = ''What is supervised learning?''"
  by (simp_all add: example_history_def well_formed_def turn_of_def content_of_def)

subsection \<open>The prompt and the generation configuration\<close>

text \<open>
  Claim C9. \<^verbatim>\<open>generate_text\<close> does not inspect the prompt: for every prompt, the empty one
  included, the call makes exactly one round trip, a \<^verbatim>\<open>generate_content\<close> request that carries
  that prompt, and the returned string is computed from the answer to that request.
\<close>

theorem generate_text_forwards_every_prompt:
  "generate_text svc self prompt kw w =
     (case svc (requests w) (GenerateContent (model self) (Prompt prompt) (make_generation_config kw)) of
        Inl e \<Rightarrow> ''Error generating text: '' @ str_exn e
      | Inr response \<Rightarrow>
          (case response_text response of
             Inl e \<Rightarrow> ''Error generating text: '' @ str_exn e
           | Inr text \<Rightarrow> text),
      self,
      w\<lparr>requests := requests w @
           [GenerateContent (model self) (Prompt prompt) (make_generation_config kw)]\<rparr>)
   \<and> sent w (snd (snd (generate_text svc self prompt kw w))) =
       [GenerateContent (model self) (Prompt prompt) (make_generation_config kw)]
   \<and> sent w (snd (snd (generate_text svc self [] kw w))) =
       [GenerateContent (model self) (Prompt []) (make_generation_config kw)]"
  by (simp add: generate_text_unfold sent_append)

text \<open>
  Claim C3. The generation configuration has exactly the keys \<open>temperature\<close>, \<open>top_p\<close>,
  \<open>top_k\<close> and \<open>max_output_tokens\<close>; each holds the caller's value when the keyword was given
  and its default (0.7, 0.95, 40, 2048) otherwise, whatever the other keywords are; with only
  \<open>temperature = 0.3\<close> it is \<open>{temperature: 0.3, top_p: 0.95, top_k: 40, max_output_tokens:
  2048}\<close>. \<^verbatim>\<open>generate_text\<close> sends exactly one request, with that configuration.
  \<^verbatim>\<open>generate_with_images\<close> sends exactly one request, with that configuration, whenever every
  reference that exists can be read; in the remaining case, where \<^verbatim>\<open>open\<close> raises before the
  configuration is built, it sends nothing, and in no case does it send another configuration.
\<close>

theorem generation_config_defaults_and_overrides:
  "map fst (make_generation_config kw) =
     [''temperature'', ''top_p'', ''top_k'', ''max_output_tokens'']
   \<and> map_of (make_generation_config kw) ''temperature'' =
       Some (case kw ''temperature'' of Some v \<Rightarrow> v | None \<Rightarrow> PyFloat 0.7)
   \<and> map_of (make_generation_config kw) ''top_p'' =
       Some (case kw ''top_p'' of Some v \<Rightarrow> v | None \<Rightarrow> PyFloat 0.95)
   \<and> map_of (make_generation_config kw) ''top_k'' =
       Some (case kw ''top_k'' of Some v \<Rightarrow> v | None \<Rightarrow> PyInt 40)
   \<and> map_of (make_generation_config kw) ''max_output_tokens'' =
       Some (case kw ''max_output_tokens'' of Some v \<Rightarrow> v | None \<Rightarrow> PyInt 2048)
   \<and> make_generation_config [''temperature'' \<mapsto> PyFloat 0.3] =
       [(''temperature'', PyFloat 0.3), (''top_p'', PyFloat 0.95),
        (''top_k'', PyInt 40), (''max_output_tokens'', PyInt 2048)]
   \<and> sent w (snd (snd (generate_text svc self prompt kw w))) =
       [GenerateContent (model self) (Prompt prompt) (make_generation_config kw)]
   \<and> (list_all (readable w) image_paths \<longrightarrow>
        sent w (snd (snd (generate_with_images svc self prompt image_paths kw w))) =
          [GenerateContent (model self) (Items (StrItem prompt # image_parts w image_paths))
             (make_generation_config kw)])
   \<and> (\<not> list_all (readable w) image_paths \<longrightarrow>
        sent w (snd (snd (generate_with_images svc self prompt image_paths kw w))) = [])"
proof -
  have keys: "map fst (make_generation_config kw) =
                [''temperature'', ''top_p'', ''top_k'', ''max_output_tokens'']"
    by (simp add: make_generation_config_def)
  have vals: "map_of (make_generation_config kw) ''temperature'' =
                Some (case kw ''temperature'' of Some v \<Rightarrow> v | None \<Rightarrow> PyFloat 0.7)"
             "map_of (make_generation_config kw) ''top_p'' =
                Some (case kw ''top_p'' of Some v \<Rightarrow> v | None \<Rightarrow> PyFloat 0.95)"
             "map_of (make_generation_config kw) ''top_k'' =
                Some (case kw ''top_k'' of Some v \<Rightarrow> v | None \<Rightarrow> PyInt 40)"
             "map_of (make_generation_config kw) ''max_output_tokens'' =
                Some (case kw ''max_output_tokens'' of Some v \<Rightarrow> v | None \<Rightarrow> PyInt 2048)"
    by (simp_all add: make_generation_config_def kwargs_get_def split: option.splits)
  have example: "make_generation_config [''temperature'' \<mapsto> PyFloat 0.3] =
       [(''temperature'', PyFloat 0.3), (''top_p'', PyFloat 0.95),
        (''top_k'', PyInt 40), (''max_output_tokens'', PyInt 2048)]"
    by (simp add: make_generation_config_def kwargs_get_def)
  have text_call: "sent w (snd (snd (generate_text svc self prompt kw w))) =
       [GenerateContent (model self) (Prompt prompt) (make_generation_config kw)]"
    by (simp add: generate_text_unfold sent_append)
  have img_call: "list_all (readable w) image_paths \<Longrightarrow>
        sent w (snd (snd (generate_with_images svc self prompt image_paths kw w))) =
          [GenerateContent (model self) (Items (StrItem prompt # image_parts w image_paths))
             (make_generation_config kw)]"
    by (rule generate_with_images_readable_sent)
  have img_none: "\<not> list_all (readable w) image_paths \<Longrightarrow>
        sent w (snd (snd (generate_with_images svc self prompt image_paths kw w))) = []"
  proof -
    assume "\<not> list_all (readable w) image_paths"
    from read_images_unreadable [OF this, of "[StrItem prompt]"]
    obtain e w' where "read_images image_paths [StrItem prompt] w = (Inl e, w')"
      "requests w' = requests w"
      by blast
    then show ?thesis
      by (simp add: generate_with_images_def generate_with_images_try_def sent_def)
  qed
  show ?thesis
    using keys vals example text_call img_call img_none by blast
qed

text \<open>
  A call of \<^verbatim>\<open>generate_with_images\<close> with only \<open>temperature = 0.3\<close> on three references, the
  second of which is missing: the one request sent carries the configuration with the three
  other defaults. And a call on a list with a directory: nothing is sent.
\<close>

theorem generation_config_defaults_and_overrides_witness:
  "list_all (readable images_world) [''cat.png'', ''missing.gif'', ''dog.JPEG'']
   \<and> sent images_world
       (snd (snd (generate_with_images stub_service demo_adapter ''Describe''
                    [''cat.png'', ''missing.gif'', ''dog.JPEG''] [''temperature'' \<mapsto> PyFloat 0.3]
                    images_world))) =
       [GenerateContent (GenerativeModel ''gemini-2.0-flash-exp'')
          (Items [StrItem ''Describe'',
                  PartItem (Part_from_data [137, 80, 78, 71] ''image/png''),
                  PartItem (Part_from_data [255, 216] ''image/jpeg'')])
          [(''temperature'', PyFloat 0.3), (''top_p'', PyFloat 0.95),
           (''top_k'', PyInt 40), (''max_output_tokens'', PyInt 2048)]]
   \<and> \<not> list_all (readable photos_world) [''cat.png'', ''photos'']
   \<and> sent photos_world
       (snd (snd (generate_with_images stub_service demo_adapter ''Describe''
                    [''cat.png'', ''photos''] [''temperature'' \<mapsto> PyFloat 0.3]
                    photos_world))) = []"
proof -
  have h2: "\<not> list_all (readable photos_world) [''cat.png'', ''photos'']"
    by (simp add: readable_def read_file_def os_path_exists_def photos_world_def)
  have m: "model demo_adapter = GenerativeModel ''gemini-2.0-flash-exp''"
    by (simp add: demo_adapter_def)
  note t1 = generation_config_defaults_and_overrides [where w = images_world
        and image_paths = "[''cat.png'', ''missing.gif'', ''dog.JPEG'']"
        and svc = stub_service and self = demo_adapter and prompt = "''Describe''"
        and kw = "[''temperature'' \<mapsto> PyFloat 0.3]"]
  note t2 = generation_config_defaults_and_overrides [where w = photos_world
        and image_paths = "[''cat.png'', ''photos'']"
        and svc = stub_service and self = demo_adapter and prompt = "''Describe''"
        and kw = "[''temperature'' \<mapsto> PyFloat 0.3]"]
  have s1: "sent images_world
       (snd (snd (generate_with_images stub_service demo_adapter ''Describe''
                    [''cat.png'', ''missing.gif'', ''dog.JPEG''] [''temperature'' \<mapsto> PyFloat 0.3]
                    images_world))) =
       [GenerateContent (model demo_adapter)
          (Items (StrItem ''Describe'' #
                  image_parts images_world [''cat.png'', ''missing.gif'', ''dog.JPEG'']))
          (make_generation_config [''temperature'' \<mapsto> PyFloat 0.3])]"
    using t1 images_world_readable by blast
  have c: "make_generation_config [''temperature'' \<mapsto> PyFloat 0.3] =
       [(''temperature'', PyFloat 0.3), (''top_p'', PyFloat 0.95),
        (''top_k'', PyInt 40), (''max_output_tokens'', PyInt 2048)]"
    using t1 by blast
  have s2: "sent photos_world
       (snd (snd (generate_with_images stub_service demo_adapter ''Describe''
                    [''cat.png'', ''photos''] [''temperature'' \<mapsto> PyFloat 0.3]
                    photos_world))) = []"
    using t2 h2 by blast
  show ?thesis
    using images_world_readable h2 s2 s1 [unfolded images_world_parts m c] by blast
qed

text \<open>
  Claim C10. Called with an empty history, \<^verbatim>\<open>chat_conversation\<close> does not raise: the
  \<^verbatim>\<open>IndexError\<close> of \<^verbatim>\<open>contents[-1]\<close> is caught by the method's own handler, the call returns
  the string \<open>Error in chat conversation: list index out of range\<close>, and the adapter and the
  world are as before (no round trip is made).
\<close>

theorem chat_conversation_empty_history:
  "chat_conversation svc self [] kw w =
     (''Error in chat conversation: list index out of range'', self, w)"
  by (simp add: chat_conversation_def chat_conversation_try_def py_last_def start_chat_def)

subsection \<open>The adapter state, model selection and the error strings\<close>

lemma demo_adapter_init: "GeminiVertexAI_init ''demo-project'' None = Inr demo_adapter"
  by (simp add: GeminiVertexAI_init_def demo_adapter_def)

lemma generate_text_self: "fst (snd (generate_text svc self prompt kw w)) = self"
  by (simp add: generate_text_unfold)

lemma generate_with_images_self:
  "fst (snd (generate_with_images svc self prompt image_paths kw w)) = self"
  by (simp add: generate_with_images_def split: prod.splits sum.splits)

lemma chat_conversation_self:
  "fst (snd (chat_conversation svc self messages kw w)) = self"
  by (simp add: chat_conversation_def split: prod.splits sum.splits)

lemma set_model_cases:
  "set_model self model_name w = (r, self', w') \<Longrightarrow>
     self' = self \<or> (\<exists>name. map_of (models self) model_name = Some name
                          \<and> self' = self\<lparr>model := GenerativeModel name\<rparr>)"
  by (auto simp: set_model_def split: option.splits)

lemma reachable_inv:
  "reachable a \<Longrightarrow>
     models a = [(''gemini-2.0-flash-exp'', ''gemini-2.0-flash-exp''),
                 (''gemini-2.0-flash-thinking-exp'', ''gemini-2.0-flash-thinking-exp'')]
     \<and> model_name_of (model a) \<in> set supported_models"
proof (induction rule: reachable.induct)
  case (reach_init project location_arg a)
  then show ?case
    by (auto simp: GeminiVertexAI_init_def supported_models_def)
next
  case (reach_set_model a model_name w r a' w')
  from set_model_cases [OF reach_set_model.hyps(2)] reach_set_model.IH show ?case
    by (auto simp: supported_models_def split: if_splits)
next
  case (reach_generate_text a svc prompt kw w t a' w')
  then show ?case
    using generate_text_self [of svc a prompt kw w] by simp
next
  case (reach_generate_with_images a svc prompt image_paths kw w t a' w')
  then show ?case
    using generate_with_images_self [of svc a prompt image_paths kw w] by simp
next
  case (reach_chat_conversation a svc messages kw w t a' w')
  then show ?case
    using chat_conversation_self [of svc a messages kw w] by simp
qed

text \<open>
  Claim C8. In every reachable state of the adapter the active model was built from one of
  the two supported identifiers, and the model table is the fixed one. \<^verbatim>\<open>generate_text\<close>,
  \<^verbatim>\<open>generate_with_images\<close> and \<^verbatim>\<open>chat_conversation\<close> return the adapter as they found it
  (model, project id, location and table); \<^verbatim>\<open>set_model\<close> is the only method that changes it,
  and it changes nothing but the model handle.
\<close>

theorem active_model_always_supported:
  "(reachable a \<longrightarrow>
      model_name_of (model a) \<in> set supported_models \<and> map fst (models a) = supported_models)
   \<and> fst (snd (generate_text svc a prompt kw w)) = a
   \<and> fst (snd (generate_with_images svc a prompt image_paths kw w)) = a
   \<and> fst (snd (chat_conversation svc a messages kw w)) = a
   \<and> (fst (snd (set_model a model_name w)) = a
      \<or> (\<exists>name. fst (snd (set_model a model_name w)) = a\<lparr>model := GenerativeModel name\<rparr>))"
proof -
  have inv: "reachable a \<longrightarrow>
      model_name_of (model a) \<in> set supported_models \<and> map fst (models a) = supported_models"
    using reachable_inv [of a] by (auto simp: supported_models_def)
  have sm: "fst (snd (set_model a model_name w)) = a
      \<or> (\<exists>name. fst (snd (set_model a model_name w)) = a\<lparr>model := GenerativeModel name\<rparr>)"
    by (auto simp: set_model_def split: option.splits)
  show ?thesis
    using inv sm generate_text_self generate_with_images_self chat_conversation_self
    by blast
qed


text \<open>
  The invariant at a state reached by the constructor and one \<^verbatim>\<open>set_model\<close> call.
\<close>

theorem active_model_always_supported_witness:
  "reachable (demo_adapter\<lparr>model := GenerativeModel ''gemini-2.0-flash-thinking-exp''\<rparr>)
   \<and> model_name_of (model (demo_adapter\<lparr>model := GenerativeModel ''gemini-2.0-flash-thinking-exp''\<rparr>))
       \<in> set supported_models
   \<and> map fst (models (demo_adapter\<lparr>model := GenerativeModel ''gemini-2.0-flash-thinking-exp''\<rparr>))
       = supported_models"
proof -
  have r0: "reachable demo_adapter"
    using reach_init [OF demo_adapter_init] .
  have step: "set_model demo_adapter ''gemini-2.0-flash-thinking-exp'' empty_world =
      (Inr (), demo_adapter\<lparr>model := GenerativeModel ''gemini-2.0-flash-thinking-exp''\<rparr>,
       print (''Model set to: '' @ ''gemini-2.0-flash-thinking-exp'') empty_world)"
    by (simp add: set_model_def demo_adapter_def)
  have r1: "reachable (demo_adapter\<lparr>model := GenerativeModel ''gemini-2.0-flash-thinking-exp''\<rparr>)"
    using reach_set_model [OF r0 step] .
  show ?thesis
    using r1 active_model_always_supported
      [of "demo_adapter\<lparr>model := GenerativeModel ''gemini-2.0-flash-thinking-exp''\<rparr>"]
    by blast
qed

text \<open>
  Claim C2. On a supported identifier \<^verbatim>\<open>set_model\<close> succeeds and replaces the model handle,
  and the generation methods called afterwards use that model: \<^verbatim>\<open>generate_text\<close> sends its one
  request to it, \<^verbatim>\<open>generate_with_images\<close> sends its one request to it when the references
  that exist can be read, \<^verbatim>\<open>chat_conversation\<close> sends its one message to a session of it when
  the history is non-empty and its messages have both keys, and no call sends a request to
  another model. On any other identifier \<^verbatim>\<open>set_model\<close> raises \<^verbatim>\<open>ValueError\<close> and leaves the
  adapter (and the world) exactly as they were.
\<close>

theorem set_model_accepts_supported_only:
  assumes "reachable self"
  shows "(model_name \<in> set supported_models \<longrightarrow>
            set_model self model_name w =
              (Inr (), self\<lparr>model := GenerativeModel model_name\<rparr>,
               print (''Model set to: '' @ model_name) w)
            \<and> sent w2 (snd (snd (generate_text svc (self\<lparr>model := GenerativeModel model_name\<rparr>)
                                     prompt kw w2))) =
                [GenerateContent (GenerativeModel model_name) (Prompt prompt)
                   (make_generation_config kw)]
            \<and> (list_all (readable w2) image_paths \<longrightarrow>
                 sent w2 (snd (snd (generate_with_images svc
                    (self\<lparr>model := GenerativeModel model_name\<rparr>) prompt image_paths kw w2))) =
                   [GenerateContent (GenerativeModel model_name)
                      (Items (StrItem prompt # image_parts w2 image_paths))
                      (make_generation_config kw)])
            \<and> (messages \<noteq> [] \<and> list_all well_formed messages \<longrightarrow>
                 sent w2 (snd (snd (chat_conversation svc
                    (self\<lparr>model := GenerativeModel model_name\<rparr>) messages kw w2))) =
                   [SendMessage
                      \<lparr>chat_model = GenerativeModel model_name,
                       history = map turn_of (butlast messages)\<rparr>
                      (content_of (last messages))])
            \<and> list_all (\<lambda>r. request_model r = GenerativeModel model_name)
                 (sent w2 (snd (snd (generate_with_images svc
                    (self\<lparr>model := GenerativeModel model_name\<rparr>) prompt image_paths kw w2))))
            \<and> list_all (\<lambda>r. request_model r = GenerativeModel model_name)
                 (sent w2 (snd (snd (chat_conversation svc
                    (self\<lparr>model := GenerativeModel model_name\<rparr>) messages kw w2)))))
       \<and> (model_name \<notin> set supported_models \<longrightarrow>
            set_model self model_name w =
              (Inl (ValueError (''Model '' @ model_name @ '' not supported. Available models: ''
                                @ repr_list supported_models)),
               self, w)
            \<and> is_ValueError (projl (fst (set_model self model_name w))))"
proof -
  let ?self' = "self\<lparr>model := GenerativeModel model_name\<rparr>"
  have tab: "models self = [(''gemini-2.0-flash-exp'', ''gemini-2.0-flash-exp''),
        (''gemini-2.0-flash-thinking-exp'', ''gemini-2.0-flash-thinking-exp'')]"
    using reachable_inv [OF assms] by simp
  have ok: "model_name \<in> set supported_models \<Longrightarrow>
      set_model self model_name w =
        (Inr (), ?self', print (''Model set to: '' @ model_name) w)"
    using tab by (auto simp: set_model_def supported_models_def)
  have bad: "model_name \<notin> set supported_models \<Longrightarrow>
      set_model self model_name w =
        (Inl (ValueError (''Model '' @ model_name @ '' not supported. Available models: ''
                          @ repr_list supported_models)),
         self, w)"
    using tab by (simp add: set_model_def supported_models_def)
  have gt: "sent w2 (snd (snd (generate_text svc ?self' prompt kw w2))) =
                [GenerateContent (GenerativeModel model_name) (Prompt prompt)
                   (make_generation_config kw)]"
    by (simp add: generate_text_unfold sent_append)
  have gi_exact: "list_all (readable w2) image_paths \<Longrightarrow>
      sent w2 (snd (snd (generate_with_images svc ?self' prompt image_paths kw w2))) =
        [GenerateContent (GenerativeModel model_name)
           (Items (StrItem prompt # image_parts w2 image_paths)) (make_generation_config kw)]"
    using generate_with_images_readable_sent [of w2 image_paths svc ?self' prompt kw] by simp
  have cc_exact: "messages \<noteq> [] \<and> list_all well_formed messages \<Longrightarrow>
      sent w2 (snd (snd (chat_conversation svc ?self' messages kw w2))) =
        [SendMessage
           \<lparr>chat_model = GenerativeModel model_name, history = map turn_of (butlast messages)\<rparr>
           (content_of (last messages))]"
    using chat_conversation_well_formed_sent [of messages w2 svc ?self' kw] by simp
  have gi: "list_all (\<lambda>r. request_model r = GenerativeModel model_name)
                 (sent w2 (snd (snd (generate_with_images svc ?self' prompt image_paths kw w2))))"
    using generate_with_images_model [of ?self' w2 svc prompt image_paths kw] by simp
  have cc: "list_all (\<lambda>r. request_model r = GenerativeModel model_name)
                 (sent w2 (snd (snd (chat_conversation svc ?self' messages kw w2))))"
    using chat_conversation_model [of ?self' w2 svc messages kw] by simp
  show ?thesis
    using ok bad gt gi_exact cc_exact gi cc by simp
qed

text \<open>
  Both cases on the adapter the constructor builds: switching to the thinking model, after
  which each of the three generation methods sends its request to that model, and
  \<^verbatim>\<open>set_model("not-a-real-model")\<close>.
\<close>

theorem set_model_accepts_supported_only_witness:
  "reachable demo_adapter
   \<and> ''gemini-2.0-flash-thinking-exp'' \<in> set supported_models
   \<and> set_model demo_adapter ''gemini-2.0-flash-thinking-exp'' empty_world =
       (Inr (), demo_adapter\<lparr>model := GenerativeModel ''gemini-2.0-flash-thinking-exp''\<rparr>,
        print (''Model set to: '' @ ''gemini-2.0-flash-thinking-exp'') empty_world)
   \<and> sent images_world (snd (snd (generate_text stub_service
          (demo_adapter\<lparr>model := GenerativeModel ''gemini-2.0-flash-thinking-exp''\<rparr>)
          ''Say hi'' Map.empty images_world))) =
       [GenerateContent (GenerativeModel ''gemini-2.0-flash-thinking-exp'') (Prompt ''Say hi'')
          (make_generation_config Map.empty)]
   \<and> list_all (readable images_world) [''cat.png'', ''missing.gif'', ''dog.JPEG'']
   \<and> sent images_world (snd (snd (generate_with_images stub_service
          (demo_adapter\<lparr>model := GenerativeModel ''gemini-2.0-flash-thinking-exp''\<rparr>)
          ''Say hi'' [''cat.png'', ''missing.gif'', ''dog.JPEG''] Map.empty images_world))) =
       [GenerateContent (GenerativeModel ''gemini-2.0-flash-thinking-exp'')
          (Items [StrItem ''Say hi'',
                  PartItem (Part_from_data [137, 80, 78, 71] ''image/png''),
                  PartItem (Part_from_data [255, 216] ''image/jpeg'')])
          (make_generation_config Map.empty)]
   \<and> example_history \<noteq> [] \<and> list_all well_formed example_history
   \<and> sent images_world (snd (snd (chat_conversation stub_service
          (demo_adapter\<lparr>model := GenerativeModel ''gemini-2.0-flash-thinking-exp''\<rparr>)
          example_history Map.empty images_world))) =
       [SendMessage
          \<lparr>chat_model = GenerativeModel ''gemini-2.0-flash-thinking-exp'',
           history = [\<lparr>role = ''user'', parts = [Part_from_text ''Hello'']\<rparr>,
                      \<lparr>role = ''model'', parts = [Part_from_text ''Hi, how can I help?'']\<rparr>]\<rparr>
          ''What is supervised learning?'']
   \<and> ''not-a-real-model'' \<notin> set supported_models
   \<and> set_model demo_adapter ''not-a-real-model'' empty_world =
       (Inl (ValueError (''Model '' @ ''not-a-real-model''
                         @ '' not supported. Available models: '' @ repr_list supported_models)),
        demo_adapter, empty_world)"
proof -
  have r0: "reachable demo_adapter"
    using reach_init [OF demo_adapter_init] .
  have m1: "''gemini-2.0-flash-thinking-exp'' \<in> set supported_models"
    by (simp add: supported_models_def)
  have m2: "''not-a-real-model'' \<notin> set supported_models"
    by (simp add: supported_models_def)
  note t1 = set_model_accepts_supported_only [OF r0,
      where model_name = "''gemini-2.0-flash-thinking-exp''" and w = empty_world
        and ?w2.0 = images_world and svc = stub_service and prompt = "''Say hi''"
        and kw = Map.empty and image_paths = "[''cat.png'', ''missing.gif'', ''dog.JPEG'']"
        and messages = example_history]
  note t2 = set_model_accepts_supported_only [OF r0,
      where model_name = "''not-a-real-model''" and w = empty_world]
  have a: "set_model demo_adapter ''gemini-2.0-flash-thinking-exp'' empty_world =
       (Inr (), demo_adapter\<lparr>model := GenerativeModel ''gemini-2.0-flash-thinking-exp''\<rparr>,
        print (''Model set to: '' @ ''gemini-2.0-flash-thinking-exp'') empty_world)"
    using t1 m1 by blast
  have b: "sent images_world (snd (snd (generate_text stub_service
          (demo_adapter\<lparr>model := GenerativeModel ''gemini-2.0-flash-thinking-exp''\<rparr>)
          ''Say hi'' Map.empty images_world))) =
       [GenerateContent (GenerativeModel ''gemini-2.0-flash-thinking-exp'') (Prompt ''Say hi'')
          (make_generation_config Map.empty)]"
    using t1 m1 by blast
  have c: "sent images_world (snd (snd (generate_with_images stub_service
          (demo_adapter\<lparr>model := GenerativeModel ''gemini-2.0-flash-thinking-exp''\<rparr>)
          ''Say hi'' [''cat.png'', ''missing.gif'', ''dog.JPEG''] Map.empty images_world))) =
       [GenerateContent (GenerativeModel ''gemini-2.0-flash-thinking-exp'')
          (Items (StrItem ''Say hi'' #
                  image_parts images_world [''cat.png'', ''missing.gif'', ''dog.JPEG'']))
          (make_generation_config Map.empty)]"
    using t1 m1 images_world_readable by blast
  have d: "sent images_world (snd (snd (chat_conversation stub_service
          (demo_adapter\<lparr>model := GenerativeModel ''gemini-2.0-flash-thinking-exp''\<rparr>)
          example_history Map.empty images_world))) =
       [SendMessage
          \<lparr>chat_model = GenerativeModel ''gemini-2.0-flash-thinking-exp'',
           history = map turn_of (butlast example_history)\<rparr>
          (content_of (last example_history))]"
    using t1 m1 example_history_facts(1,2) by blast
  have e: "set_model demo_adapter ''not-a-real-model'' empty_world =
       (Inl (ValueError (''Model '' @ ''not-a-real-model''
                         @ '' not supported. Available models: '' @ repr_list supported_models)),
        demo_adapter, empty_world)"
    using t2 m2 by blast
  show ?thesis
    using r0 m1 m2 a b images_world_readable c [unfolded images_world_parts]
      example_history_facts(1,2) d [unfolded example_history_facts(3,4)] e
    by blast
qed

text \<open>
  Claim C1. Whatever exception the body of the \<^verbatim>\<open>try\<close> raises, each of the three methods
  returns (it has no exceptional outcome) the string made of its fixed prefix followed by
  \<^verbatim>\<open>str(e)\<close>, with the adapter unchanged.
\<close>

theorem exceptions_become_error_strings:
  "(generate_text_try svc self prompt kw w = (Inl e, w') \<longrightarrow>
      generate_text svc self prompt kw w = (''Error generating text: '' @ str_exn e, self, w'))
   \<and> (generate_with_images_try svc self prompt image_paths kw w = (Inl e, w') \<longrightarrow>
      generate_with_images svc self prompt image_paths kw w =
        (''Error generating text with images: '' @ str_exn e, self, w'))
   \<and> (chat_conversation_try svc self messages kw w = (Inl e, w') \<longrightarrow>
      chat_conversation svc self messages kw w =
        (''Error in chat conversation: '' @ str_exn e, self, w'))"
  by (simp add: generate_text_def generate_with_images_def chat_conversation_def)

lemma repr_photos: "repr_str ''photos'' = [quote] @ ''photos'' @ [quote]"
  by code_simp

lemma repr_role: "repr_str ''role'' = [quote] @ ''role'' @ [quote]"
  by code_simp

text \<open>
  Three causes: the service is down during \<^verbatim>\<open>generate_text\<close>; an image path that is a
  directory makes \<^verbatim>\<open>open\<close> raise in \<^verbatim>\<open>generate_with_images\<close>; a message without the key
  \<open>role\<close> raises \<^verbatim>\<open>KeyError\<close> in \<^verbatim>\<open>chat_conversation\<close>.
\<close>

theorem exceptions_become_error_strings_witness:
  "generate_text_try failing_service demo_adapter ''Say hi'' Map.empty empty_world =
     (Inl (SdkError ''ServiceUnavailable'' ''503 Service Unavailable''),
      empty_world\<lparr>requests := [GenerateContent (GenerativeModel ''gemini-2.0-flash-exp'')
                                  (Prompt ''Say hi'') (make_generation_config Map.empty)]\<rparr>)
   \<and> generate_text failing_service demo_adapter ''Say hi'' Map.empty empty_world =
     (''Error generating text: 503 Service Unavailable'', demo_adapter,
      empty_world\<lparr>requests := [GenerateContent (GenerativeModel ''gemini-2.0-flash-exp'')
                                  (Prompt ''Say hi'') (make_generation_config Map.empty)]\<rparr>)
   \<and> generate_with_images_try stub_service demo_adapter ''Describe'' [''photos''] Map.empty
       photos_world = (Inl (IsADirectoryError ''photos''), photos_world)
   \<and> generate_with_images stub_service demo_adapter ''Describe'' [''photos''] Map.empty
       photos_world =
     (''Error generating text with images: [Errno 21] Is a directory: '' @ [quote] @ ''photos''
        @ [quote], demo_adapter, photos_world)
   \<and> chat_conversation_try stub_service demo_adapter [[''content'' \<mapsto> ''hello'']] Map.empty
       empty_world = (Inl (KeyError ''role''), empty_world)
   \<and> chat_conversation stub_service demo_adapter [[''content'' \<mapsto> ''hello'']] Map.empty
       empty_world =
     (''Error in chat conversation: '' @ [quote] @ ''role'' @ [quote], demo_adapter, empty_world)"
proof -
  have t: "generate_text_try failing_service demo_adapter ''Say hi'' Map.empty empty_world =
     (Inl (SdkError ''ServiceUnavailable'' ''503 Service Unavailable''),
      empty_world\<lparr>requests := [GenerateContent (GenerativeModel ''gemini-2.0-flash-exp'')
                                  (Prompt ''Say hi'') (make_generation_config Map.empty)]\<rparr>)"
    by (simp add: generate_text_try_def round_trip_def failing_service_def demo_adapter_def
          empty_world_def)
  have i: "generate_with_images_try stub_service demo_adapter ''Describe'' [''photos''] Map.empty
       photos_world = (Inl (IsADirectoryError ''photos''), photos_world)"
    by (simp add: generate_with_images_try_def os_path_exists_def read_file_def photos_world_def)
  have c: "chat_conversation_try stub_service demo_adapter [[''content'' \<mapsto> ''hello'']] Map.empty
       empty_world = (Inl (KeyError ''role''), empty_world)"
    by (simp add: chat_conversation_try_def convert_message_def)
  show ?thesis
    using t i c
      exceptions_become_error_strings [where svc = failing_service and self = demo_adapter
        and prompt = "''Say hi''" and kw = Map.empty and w = empty_world
        and e = "SdkError ''ServiceUnavailable'' ''503 Service Unavailable''"
        and w' = "empty_world\<lparr>requests := [GenerateContent (GenerativeModel ''gemini-2.0-flash-exp'')
                                  (Prompt ''Say hi'') (make_generation_config Map.empty)]\<rparr>"]
      exceptions_become_error_strings [where svc = stub_service and self = demo_adapter
        and prompt = "''Describe''" and image_paths = "[''photos'']" and kw = Map.empty
        and w = photos_world and e = "IsADirectoryError ''photos''" and w' = photos_world]
      exceptions_become_error_strings [where svc = stub_service and self = demo_adapter
        and messages = "[[''content'' \<mapsto> ''hello'']]" and kw = Map.empty
        and w = empty_world and e = "KeyError ''role''" and w' = empty_world]
    by (simp add: repr_photos repr_role)
qed

subsection \<open>The chat history\<close>

text \<open>
  Claim C4. For every non-empty history of messages that have the keys \<open>role\<close> and
  \<open>content\<close> (whatever the role of the last one, so in particular when it is \<open>user\<close>),
  \<^verbatim>\<open>chat_conversation\<close> converts each message to a turn whose role is \<open>user\<close> when the
  message's role is \<open>user\<close> and \<open>model\<close> otherwise, and makes exactly one round trip: it
  sends the text of the last message to a session seeded with the turns of all the messages
  but the last, in their order. For a history of length 1 the seed is empty.
\<close>

theorem chat_conversation_seeds_history_sends_last:
  assumes "messages \<noteq> []" and "list_all well_formed messages"
  shows "sent w (snd (snd (chat_conversation svc self messages kw w))) =
           [SendMessage \<lparr>chat_model = model self, history = map turn_of (butlast messages)\<rparr>
              (content_of (last messages))]
         \<and> map role (map turn_of messages) =
             map (\<lambda>m. if m ''role'' = Some ''user'' then ''user'' else ''model'') messages
         \<and> map parts (map turn_of messages) =
             map (\<lambda>m. [Part_from_text (content_of m)]) messages
         \<and> (length messages = 1 \<longrightarrow>
              sent w (snd (snd (chat_conversation svc self messages kw w))) =
                [SendMessage \<lparr>chat_model = model self, history = []\<rparr>
                   (content_of (last messages))])"
proof -
  have s: "sent w (snd (snd (chat_conversation svc self messages kw w))) =
           [SendMessage \<lparr>chat_model = model self, history = map turn_of (butlast messages)\<rparr>
              (content_of (last messages))]"
    by (simp add: chat_conversation_well_formed [OF assms] sent_append)
  have one: "length messages = 1 \<Longrightarrow> butlast messages = []"
    by (cases messages) simp_all
  show ?thesis
    using s one by (simp add: turn_of_def)
qed

text \<open>
  The three-message conversation of \<^verbatim>\<open>example.py\<close> (shortened), whose last message has role
  \<open>user\<close>, and a history of length 1.
\<close>

theorem chat_conversation_seeds_history_sends_last_witness:
  "example_history \<noteq> [] \<and> list_all well_formed example_history
   \<and> last example_history ''role'' = Some ''user''
   \<and> sent empty_world
       (snd (snd (chat_conversation stub_service demo_adapter example_history Map.empty
                    empty_world))) =
       [SendMessage
          \<lparr>chat_model = GenerativeModel ''gemini-2.0-flash-exp'',
           history = [\<lparr>role = ''user'', parts = [Part_from_text ''Hello'']\<rparr>,
                      \<lparr>role = ''model'', parts = [Part_from_text ''Hi, how can I help?'']\<rparr>]\<rparr>
          ''What is supervised learning?'']
   \<and> length [[''role'' \<mapsto> ''user'', ''content'' \<mapsto> ''Hello'']] = (1::nat)
   \<and> sent empty_world
       (snd (snd (chat_conversation stub_service demo_adapter
                    [[''role'' \<mapsto> ''user'', ''content'' \<mapsto> ''Hello'']] Map.empty empty_world))) =
       [SendMessage \<lparr>chat_model = GenerativeModel ''gemini-2.0-flash-exp'', history = []\<rparr>
          ''Hello'']"
proof -
  have ne: "example_history \<noteq> []"
    by (simp add: example_history_def)
  have wf: "list_all well_formed example_history"
    by (simp add: example_history_def well_formed_def)
  have ne1: "[[''role'' \<mapsto> ''user'', ''content'' \<mapsto> ''Hello'']] \<noteq> ([] :: message list)"
    by simp
  have wf1: "list_all well_formed [[''role'' \<mapsto> ''user'', ''content'' \<mapsto> ''Hello'']]"
    by (simp add: well_formed_def)
  have lr: "last example_history ''role'' = Some ''user''"
    by (simp add: example_history_def)
  show ?thesis
    using ne wf lr
      chat_conversation_seeds_history_sends_last [OF ne wf, where w = empty_world
        and svc = stub_service and self = demo_adapter and kw = Map.empty]
      chat_conversation_seeds_history_sends_last [OF ne1 wf1, where w = empty_world
        and svc = stub_service and self = demo_adapter and kw = Map.empty]
    by (simp add: example_history_def turn_of_def content_of_def demo_adapter_def)
qed

subsection \<open>Image references\<close>




subsection \<open>The MIME type of a path\<close>

lemma skip_leading_dots_split:
  "skip_leading_dots p filenameIndex dotIndex = Some r \<Longrightarrow> r = (take dotIndex p, drop dotIndex p)"
proof (induction p filenameIndex dotIndex rule: skip_leading_dots.induct)
  case (1 p filenameIndex dotIndex)
  show ?case
  proof (cases "filenameIndex < dotIndex")
    case True
    show ?thesis
    proof (cases "take 1 (drop filenameIndex p) \<noteq> ''.''")
      case nondot: True
      then show ?thesis
        using "1.prems" True by (subst (asm) skip_leading_dots.simps) simp
    next
      case False
      then have "skip_leading_dots p (filenameIndex + 1) dotIndex = Some r"
        using "1.prems" True by (subst (asm) skip_leading_dots.simps) simp
      from "1.IH" [OF True _ this] False show ?thesis
        by simp
    qed
  next
    case False
    then show ?thesis
      using "1.prems" by (subst (asm) skip_leading_dots.simps) simp
  qed
qed

lemma splitext_concat: "fst (splitext p) @ snd (splitext p) = p"
proof (cases "skip_leading_dots p (nat (rfind p (CHR ''/'') + 1)) (nat (rfind p (CHR ''.'')))")
  case None
  then show ?thesis
    by (simp add: splitext_def Let_def)
next
  case (Some r)
  from skip_leading_dots_split [OF this] Some show ?thesis
    by (simp add: splitext_def Let_def)
qed

lemma splitext_examples:
  "splitext ''photo.png'' = (''photo'', ''.png'')"
  "splitext ''holiday/cat.PNG'' = (''holiday/cat'', ''.PNG'')"
  "splitext ''archive.tar.gz'' = (''archive.tar'', ''.gz'')"
  "splitext ''.png'' = (''.png'', [])"
  "splitext ''pictures.d/scan'' = (''pictures.d/scan'', [])"
  "splitext ''dir/...png'' = (''dir/...png'', [])"
  by code_simp+

lemma get_mime_type_examples:
  "get_mime_type ''photo.jpg'' = ''image/jpeg''"
  "get_mime_type ''photo.jpeg'' = ''image/jpeg''"
  "get_mime_type ''photo.png'' = ''image/png''"
  "get_mime_type ''anim.gif'' = ''image/gif''"
  "get_mime_type ''scan.bmp'' = ''image/bmp''"
  "get_mime_type ''pic.webp'' = ''image/webp''"
  "get_mime_type ''holiday/cat.PNG'' = ''image/png''"
  "get_mime_type ''notes.txt'' = ''image/jpeg''"
  "get_mime_type ''README'' = ''image/jpeg''"
  "get_mime_type ''.png'' = ''image/jpeg''"
  by code_simp+

lemma repr_str_examples:
  "repr_str ''photos'' = [quote] @ ''photos'' @ [quote]"
  "repr_str [CHR ''a'', CHR 0x01, CHR ''b''] = [quote] @ ''a'' @ [backslash] @ ''x01b'' @ [quote]"
  "repr_str [CHR ''a'', CHR 0x0A] = [quote] @ ''a'' @ [backslash] @ ''n'' @ [quote]"
  "repr_str [CHR ''i'', CHR ''t'', quote, CHR ''s''] = [dquote] @ ''it'' @ [quote] @ ''s'' @ [dquote]"
  by code_simp+

text \<open>
  Claim C7. The MIME type of a path is a function of its extension alone, where the
  extension is what the code computes, \<^verbatim>\<open>os.path.splitext(file_path)[1].lower()\<close>: the table
  sends \<open>.jpg\<close> and \<open>.jpeg\<close> to \<open>image/jpeg\<close>, \<open>.png\<close> to \<open>image/png\<close>, \<open>.gif\<close> to
  \<open>image/gif\<close>, \<open>.bmp\<close> to \<open>image/bmp\<close>, \<open>.webp\<close> to \<open>image/webp\<close>, and every other
  extension (the empty one included) to \<open>image/jpeg\<close>. Two paths with the same extension
  have the same MIME type.
\<close>

theorem mime_type_by_extension_table:
  "get_mime_type p =
     (if extension p = ''.jpg'' \<or> extension p = ''.jpeg'' then ''image/jpeg''
      else if extension p = ''.png'' then ''image/png''
      else if extension p = ''.gif'' then ''image/gif''
      else if extension p = ''.bmp'' then ''image/bmp''
      else if extension p = ''.webp'' then ''image/webp''
      else ''image/jpeg'')
   \<and> extension p = lower (snd (splitext p))
   \<and> (extension p = extension q \<longrightarrow> get_mime_type p = get_mime_type q)"
  by (simp add: get_mime_type_def mime_types_def) (simp add: extension_def)

text \<open>
  Two paths with the same extension: the upper-case spelling is lowered before the lookup.
\<close>

theorem mime_type_by_extension_table_witness:
  "extension ''holiday/cat.PNG'' = extension ''photo.png''
   \<and> get_mime_type ''holiday/cat.PNG'' = get_mime_type ''photo.png''
   \<and> get_mime_type ''photo.png'' = ''image/png''"
proof -
  have e: "extension ''holiday/cat.PNG'' = extension ''photo.png''"
    by code_simp
  have m: "get_mime_type ''photo.png'' = ''image/png''"
    by code_simp
  show ?thesis
    using e m mime_type_by_extension_table [of "''holiday/cat.PNG''" "''photo.png''"]
    by blast
qed

subsection \<open>Temporary files of the dashboard\<close>

lemma write_file_ok:
  "write_file path data w = (Inr u, w') \<Longrightarrow> w' = w\<lparr>files := (files w)(path \<mapsto> File data)\<rparr>"
  by (auto simp: write_file_def split: if_splits option.splits node.splits)

lemma write_file_keeps_files:
  "write_file path data w = (r, w') \<Longrightarrow> files w p = Some (File d) \<Longrightarrow>
     \<exists>d'. files w' p = Some (File d')"
  by (auto simp: write_file_def split: if_splits option.splits node.splits)

lemma stage_uploads_keeps_files:
  "stage_uploads uploaded_files temp_paths w = (r, w1) \<Longrightarrow> files w p = Some (File d) \<Longrightarrow>
     \<exists>d'. files w1 p = Some (File d')"
proof (induction uploaded_files arbitrary: temp_paths w d)
  case Nil
  then show ?case by simp
next
  case (Cons uploaded rest)
  obtain r' w' where
    wr: "write_file (temp_path_of uploaded) (upload_buffer uploaded) w = (r', w')"
    by (cases "write_file (temp_path_of uploaded) (upload_buffer uploaded) w")
  from write_file_keeps_files [OF wr Cons.prems(2)] obtain d' where
    k: "files w' p = Some (File d')"
    by blast
  show ?case
  proof (cases r')
    case (Inl e)
    then show ?thesis
      using Cons.prems(1) wr k by (auto simp: Let_def)
  next
    case (Inr u)
    then have "stage_uploads rest (temp_paths @ [temp_path_of uploaded]) w' = (r, w1)"
      using Cons.prems(1) wr by (simp add: Let_def)
    from Cons.IH [OF this k] show ?thesis .
  qed
qed

lemma stage_uploads_staged:
  "stage_uploads uploaded_files temp_paths w = (Inr staged, w1) \<Longrightarrow>
     staged = temp_paths @ map temp_path_of uploaded_files
     \<and> list_all (\<lambda>p. \<exists>d. files w1 p = Some (File d)) (map temp_path_of uploaded_files)"
proof (induction uploaded_files arbitrary: temp_paths w)
  case Nil
  then show ?case by simp
next
  case (Cons uploaded rest)
  obtain r' w' where
    wr: "write_file (temp_path_of uploaded) (upload_buffer uploaded) w = (r', w')"
    by (cases "write_file (temp_path_of uploaded) (upload_buffer uploaded) w")
  show ?case
  proof (cases r')
    case (Inl e)
    then show ?thesis
      using Cons.prems wr by (simp add: Let_def)
  next
    case (Inr u)
    then have st: "stage_uploads rest (temp_paths @ [temp_path_of uploaded]) w' = (Inr staged, w1)"
      using Cons.prems wr by (simp add: Let_def)
    have "files w' (temp_path_of uploaded) = Some (File (upload_buffer uploaded))"
      using write_file_ok [of "temp_path_of uploaded" "upload_buffer uploaded" w u w'] wr Inr
      by simp
    from stage_uploads_keeps_files [OF st this]
    have here: "\<exists>d. files w1 (temp_path_of uploaded) = Some (File d)" .
    from Cons.IH [OF st] here show ?thesis
      by simp
  qed
qed

lemma st_show_files: "st_show st element w = (r, w') \<Longrightarrow> files w' = files w"
  by (auto simp: st_show_def split: option.splits)

lemma generate_with_images_files:
  "generate_with_images svc self prompt image_paths kw w = (t, self', w') \<Longrightarrow> files w' = files w"
proof -
  assume g: "generate_with_images svc self prompt image_paths kw w = (t, self', w')"
  obtain r w1 where ri: "read_images image_paths [StrItem prompt] w = (r, w1)"
    by (cases "read_images image_paths [StrItem prompt] w")
  then have f1: "files w1 = files w"
    using read_images_frame by blast
  show ?thesis
    using g ri f1
    by (auto simp: generate_with_images_def generate_with_images_try_def round_trip_def Let_def
          split: sum.splits)
qed

lemma analyze_try_files:
  "analyze_try svc st client vision_prompt temp_paths kw w = (r, w') \<Longrightarrow> files w' = files w"
proof -
  assume a: "analyze_try svc st client vision_prompt temp_paths kw w = (r, w')"
  obtain response client' w1 where
    g: "generate_with_images svc client vision_prompt temp_paths kw w = (response, client', w1)"
    by (cases "generate_with_images svc client vision_prompt temp_paths kw w")
  have f1: "files w1 = files w"
    using generate_with_images_files [OF g] .
  show ?thesis
    using a g f1
    by (auto simp: analyze_try_def split: prod.splits sum.splits dest!: st_show_files)
qed

lemma cleanup_removes:
  "list_all (not_directory w) temp_paths \<Longrightarrow>
     cleanup temp_paths w =
       (Inr (), w\<lparr>files := (\<lambda>q. if q \<in> set temp_paths then None else files w q)\<rparr>)"
proof (induction temp_paths arbitrary: w)
  case Nil
  then show ?case by simp
next
  case (Cons temp_path rest)
  then have rest: "list_all (not_directory w) rest"
    by simp
  have nd: "files w temp_path \<noteq> Some Dir"
    using Cons.prems by (simp add: not_directory_def)
  show ?case
  proof (cases "files w temp_path")
    case None
    have "(\<lambda>q. if q \<in> set rest then None else files w q) =
          (\<lambda>q. if q \<in> set (temp_path # rest) then None else files w q)"
      using None by (auto simp: fun_eq_iff)
    then show ?thesis
      using None Cons.IH [OF rest] by (simp add: os_path_exists_def)
  next
    case (Some n)
    let ?w' = "w\<lparr>files := (files w)(temp_path := None)\<rparr>"
    have rm: "os_remove temp_path w = (Inr (), ?w')"
      using Some nd by (cases n) (simp_all add: os_remove_def)
    have "list_all (not_directory ?w') rest"
      using rest by (simp add: list_all_iff not_directory_def)
    from Cons.IH [OF this]
    have c: "cleanup rest ?w' =
       (Inr (), ?w'\<lparr>files := (\<lambda>q. if q \<in> set rest then None else files ?w' q)\<rparr>)" .
    have "(\<lambda>q. if q \<in> set rest then None else files ?w' q) =
          (\<lambda>q. if q \<in> set (temp_path # rest) then None else files w q)"
      by (auto simp: fun_eq_iff)
    then show ?thesis
      using Some rm c by (simp add: os_path_exists_def)
  qed
qed

text \<open>
  Once the staging loop has completed, every temporary file is gone when the handler is
  left, whatever the service answers and whether or not a display call raises.
\<close>

lemma analyze_images_cleans_after_staging:
  assumes "stage_uploads uploaded_files [] w = (Inr staged, w1)"
    and "uploaded_files \<noteq> []" and "vision_prompt \<noteq> []"
  shows "list_all
           (\<lambda>uploaded. \<not> os_path_exists
              (snd (analyze_images svc st client uploaded_files vision_prompt kw w))
              (temp_path_of uploaded))
           uploaded_files"
proof -
  from stage_uploads_staged [OF assms(1)]
  have sg: "staged = map temp_path_of uploaded_files"
    and fl: "list_all (\<lambda>p. \<exists>d. files w1 p = Some (File d)) (map temp_path_of uploaded_files)"
    by simp_all
  obtain outcome w2 where
    at: "analyze_try svc st client vision_prompt (map temp_path_of uploaded_files) kw w1 =
           (outcome, w2)"
    by (cases "analyze_try svc st client vision_prompt (map temp_path_of uploaded_files) kw w1")
  have f2: "files w2 = files w1"
    using analyze_try_files [OF at] .
  have "list_all (not_directory w2) (map temp_path_of uploaded_files)"
    using fl f2 by (auto simp: not_directory_def list_all_iff)
  from cleanup_removes [OF this]
  have cl: "cleanup (map temp_path_of uploaded_files) w2 =
       (Inr (), w2\<lparr>files := (\<lambda>q. if q \<in> set (map temp_path_of uploaded_files) then None
                                 else files w2 q)\<rparr>)" .
  have "analyze_images svc st client uploaded_files vision_prompt kw w =
          (outcome, w2\<lparr>files := (\<lambda>q. if q \<in> set (map temp_path_of uploaded_files) then None
                                      else files w2 q)\<rparr>)"
    using assms sg at cl by (simp add: analyze_images_def)
  then show ?thesis
    by (simp add: list_all_iff os_path_exists_def)
qed

lemma write_temp_a:
  "files w ''temp_a.png'' = None \<Longrightarrow>
     write_file ''temp_a.png'' data w = (Inr (), w\<lparr>files := (files w)(''temp_a.png'' \<mapsto> File data)\<rparr>)"
  by (simp add: write_file_def basename_def dirname_def parent_error_def rfind_def name_max_def)

lemma write_temp_b:
  "write_file ''temp_b.png'' data w =
     (case files w ''temp_b.png'' of
        Some Dir \<Rightarrow> (Inl (IsADirectoryError ''temp_b.png''), w)
      | Some (Protected old) \<Rightarrow> (Inl (PermissionError ''temp_b.png''), w)
      | _ \<Rightarrow> (Inr (), w\<lparr>files := (files w)(''temp_b.png'' \<mapsto> File data)\<rparr>))"
  by (simp add: write_file_def basename_def dirname_def parent_error_def rfind_def name_max_def)

lemma stage_two_uploads:
  "stage_uploads two_uploads [] empty_world =
     (Inr [''temp_a.png'', ''temp_b.png''],
      empty_world\<lparr>files := [''temp_a.png'' \<mapsto> File [1, 2, 3], ''temp_b.png'' \<mapsto> File [4, 5, 6]]\<rparr>)"
  by (simp add: two_uploads_def temp_path_of_def write_temp_a write_temp_b empty_world_def
        Let_def)

text \<open>
  The success path, the failure path (the service is down) and a display call that raises:
  in each the staged files are gone afterwards.
\<close>

lemma analyze_images_cleans_examples:
  "list_all
     (\<lambda>uploaded. \<not> os_path_exists
        (snd (analyze_images stub_service quiet_page demo_adapter two_uploads ''What is shown?''
                Map.empty empty_world)) (temp_path_of uploaded)) two_uploads"
  "list_all
     (\<lambda>uploaded. \<not> os_path_exists
        (snd (analyze_images failing_service quiet_page demo_adapter two_uploads
                ''What is shown?'' Map.empty empty_world)) (temp_path_of uploaded)) two_uploads"
  "list_all
     (\<lambda>uploaded. \<not> os_path_exists
        (snd (analyze_images stub_service (\<lambda>element. Some (SdkError ''StreamlitAPIException'' []))
                demo_adapter two_uploads ''What is shown?'' Map.empty empty_world))
        (temp_path_of uploaded)) two_uploads"
proof -
  have ne: "two_uploads \<noteq> []" "''What is shown?'' \<noteq> []"
    by (simp_all add: two_uploads_def)
  show "list_all
     (\<lambda>uploaded. \<not> os_path_exists
        (snd (analyze_images stub_service quiet_page demo_adapter two_uploads ''What is shown?''
                Map.empty empty_world)) (temp_path_of uploaded)) two_uploads"
    using analyze_images_cleans_after_staging [OF stage_two_uploads ne] .
  show "list_all
     (\<lambda>uploaded. \<not> os_path_exists
        (snd (analyze_images failing_service quiet_page demo_adapter two_uploads
                ''What is shown?'' Map.empty empty_world)) (temp_path_of uploaded)) two_uploads"
    using analyze_images_cleans_after_staging [OF stage_two_uploads ne] .
  show "list_all
     (\<lambda>uploaded. \<not> os_path_exists
        (snd (analyze_images stub_service (\<lambda>element. Some (SdkError ''StreamlitAPIException'' []))
                demo_adapter two_uploads ''What is shown?'' Map.empty empty_world))
        (temp_path_of uploaded)) two_uploads"
    using analyze_images_cleans_after_staging [OF stage_two_uploads ne] .
qed

text \<open>
  A second upload whose name has 252 characters: the temporary name has 257, \<^verbatim>\<open>open\<close> raises
  in the staging loop, and \<^verbatim>\<open>temp_a.png\<close> stays.
\<close>

lemma analyze_images_long_name_leaves_file:
  "fst (analyze_images stub_service quiet_page demo_adapter long_name_uploads ''What is shown?''
          Map.empty empty_world) =
     Inl (NameTooLong (''temp_'' @ replicate 248 (CHR ''b'') @ ''.png''))"
  "os_path_exists
     (snd (analyze_images stub_service quiet_page demo_adapter long_name_uploads
             ''What is shown?'' Map.empty empty_world)) ''temp_a.png''"
proof -
  have long: "name_max < length (basename (''temp_'' @ replicate 248 (CHR ''b'') @ ''.png''))"
  proof -
    have "rfind_from xs (CHR ''/'') i found = found" if "CHR ''/'' \<notin> set xs" for xs i found
      using that by (induction xs arbitrary: i found) auto
    then have "rfind (''temp_'' @ replicate 248 (CHR ''b'') @ ''.png'') (CHR ''/'') = - 1"
      by (simp add: rfind_def)
    then show ?thesis
      by (simp add: basename_def name_max_def)
  qed
  have wb: "write_file (''temp_'' @ replicate 248 (CHR ''b'') @ ''.png'') data w =
              (Inl (NameTooLong (''temp_'' @ replicate 248 (CHR ''b'') @ ''.png'')), w)" for data w
    using long by (simp add: write_file_def)
  have r: "analyze_images stub_service quiet_page demo_adapter long_name_uploads ''What is shown?''
          Map.empty empty_world =
        (Inl (NameTooLong (''temp_'' @ replicate 248 (CHR ''b'') @ ''.png'')),
         empty_world\<lparr>files := (files empty_world)(''temp_a.png'' \<mapsto> File [1, 2, 3])\<rparr>)"
    using wb
    by (simp add: analyze_images_def long_name_uploads_def temp_path_of_def write_temp_a
          empty_world_def Let_def)
  show "fst (analyze_images stub_service quiet_page demo_adapter long_name_uploads
          ''What is shown?'' Map.empty empty_world) =
     Inl (NameTooLong (''temp_'' @ replicate 248 (CHR ''b'') @ ''.png''))"
    by (simp add: r)
  show "os_path_exists
     (snd (analyze_images stub_service quiet_page demo_adapter long_name_uploads
             ''What is shown?'' Map.empty empty_world)) ''temp_a.png''"
    by (simp add: r os_path_exists_def)
qed

text \<open>
  Claim C6 says that every temporary file created to stage an upload is gone when the
  handler is left, however it is left. The staging loop runs before the \<^verbatim>\<open>try\<close>, so an
  exception raised while a later upload is staged leaves the handler without running the
  \<^verbatim>\<open>finally\<close> block. Here two images \<^verbatim>\<open>a.png\<close> and \<^verbatim>\<open>b.png\<close> are uploaded and the working
  directory holds a directory \<^verbatim>\<open>temp_b.png\<close>: \<^verbatim>\<open>temp_a.png\<close> is written, opening
  \<^verbatim>\<open>temp_b.png\<close> raises \<^verbatim>\<open>IsADirectoryError\<close>, the exception leaves the handler, and
  \<^verbatim>\<open>temp_a.png\<close> is still there. (When staging completes, the files are removed on every
  exit: lemma \<open>analyze_images_cleans_after_staging\<close>; an over-long name of a
  later upload has the same effect as the directory: lemma
  \<open>analyze_images_long_name_leaves_file\<close>.)
\<close>

theorem analyze_images_staging_failure_leaves_file:
  "analyze_images stub_service quiet_page demo_adapter two_uploads ''What is shown?''
     (slider_kwargs (PyFloat 0.7) (PyInt 2048) (PyFloat 0.95) (PyInt 40)) blocked_world =
     (Inl (IsADirectoryError ''temp_b.png''),
      blocked_world\<lparr>files := [''temp_b.png'' \<mapsto> Dir, ''temp_a.png'' \<mapsto> File [1, 2, 3]]\<rparr>)
   \<and> os_path_exists
       (snd (analyze_images stub_service quiet_page demo_adapter two_uploads ''What is shown?''
               (slider_kwargs (PyFloat 0.7) (PyInt 2048) (PyFloat 0.95) (PyInt 40)) blocked_world))
       ''temp_a.png''"
  by (simp add: analyze_images_def two_uploads_def temp_path_of_def write_temp_a write_temp_b
        blocked_world_def os_path_exists_def Let_def)

end
